theory Spec2Isabelle
  imports Main "HOL-Library.Char_ord" "HOL-Library.List_Lexorder" "HOL-Library.Multiset"
begin

section \<open>Go values used by the container inspector\<close>

text \<open>
  The theory embeds \<^verbatim>\<open>internal/app/master/inspectors/container/container_inspector.go\<close>.

  A Go slice of strings is a \<open>string list\<close>; the code only ever takes \<open>len\<close> of a slice,
  indexes it or appends to it, so a nil slice and an empty slice are both \<open>[]\<close>.

  A Go map is an association list with one entry per key. Go leaves the order in which
  \<^verbatim>\<open>range\<close> visits a map unspecified; the order of the entries of the association list
  stands for the order in which the run under consideration visits them, and every
  statement below that is not about one fixed run is made for all orders.
\<close>

type_synonym ('k, 'v) gomap = "('k \<times> 'v) list"

definition gomap_wf :: "('k, 'v) gomap \<Rightarrow> bool" where
  "gomap_wf m = distinct (map fst m)"

definition gomap_len :: "('k, 'v) gomap \<Rightarrow> nat" where
  "gomap_len m = length m"

definition gomap_get :: "('k, 'v) gomap \<Rightarrow> 'k \<Rightarrow> 'v option" where
  "gomap_get m k = map_of m k"

text \<open>\<^verbatim>\<open>m[k] = v\<close>: overwrite the entry of \<open>k\<close> where it is, or add a new entry.\<close>

fun gomap_set :: "'k \<Rightarrow> 'v \<Rightarrow> ('k, 'v) gomap \<Rightarrow> ('k, 'v) gomap" where
  "gomap_set k v [] = [(k, v)]"
| "gomap_set k v (e # m) = (if fst e = k then (k, v) # m else e # gomap_set k v m)"

text \<open>
  Go errors. Two things are ever asked of an error value: whether its dynamic type is
  \<^verbatim>\<open>*dockerapi.ContainerNotRunning\<close>, and what its \<^verbatim>\<open>Error()\<close> text is.
\<close>

datatype error = ContainerNotRunning string | OtherError string

fun Error :: "error \<Rightarrow> string" where
  "Error (ContainerNotRunning cid) = ''Container not running: '' @ cid"
| "Error (OtherError msg) = msg"

datatype panic = NilDereference | IndexOutOfRange

text \<open>
  How a call ends: it returns (with a Go \<^verbatim>\<open>error\<close>, \<open>None\<close> being \<^verbatim>\<open>nil\<close>), it panics,
  or the process is terminated by a fatal failure.
\<close>

datatype outcome = Returned "error option" | Panicked panic | Exited string

section \<open>Data model\<close>

type_synonym Port = string
type_synonym addr = nat

text \<open>
  Maps are reference values in Go. The only map the inspector writes to through an alias
  is a \<^verbatim>\<open>map[dockerapi.Port]struct{}\<close>, so the store holds those: an address denotes a
  map object, a nil map is \<open>None\<close>.
\<close>

type_synonym heap = "addr \<Rightarrow> (Port, unit) gomap"

text \<open>
  Modelled from the spec: \<^verbatim>\<open>config.ContainerOverrides\<close>, \<^verbatim>\<open>config.VolumeMount\<close> and
  \<^verbatim>\<open>image.Inspector\<close> are declared outside the embedded file. The specification lists
  their content; the records carry the fields that the inspector reads.
  \<open>ImageEntrypoint\<close> and \<open>ImageCmd\<close> are \<^verbatim>\<open>ImageInfo.Config.Entrypoint\<close> and
  \<^verbatim>\<open>ImageInfo.Config.Cmd\<close> of the image inspector, which is taken to be fully populated.
\<close>

record ContainerOverrides =
  Entrypoint :: "string list"
  ClearEntrypoint :: bool
  Cmd :: "string list"
  ClearCmd :: bool
  Env :: "string list"
  Hostname :: string
  Network :: string
  ExposedPorts :: "addr option"

record VolumeMount =
  Source :: string
  Destination :: string
  Options :: string

record image_Inspector =
  ImageRef :: string
  ImageEntrypoint :: "string list"
  ImageCmd :: "string list"
  ArtifactLocation :: string
  AppArmorProfileName :: string
  SeccompProfileName :: string

record PortBinding =
  HostIP :: string
  HostPort :: string

record NetworkSettings =
  Ports :: "(Port, PortBinding list) gomap"

record Container =
  ID :: string
  NetworkSettings :: "NetworkSettings option"

text \<open>
  The inspector. \<open>Overrides\<close> and \<open>ContainerInfo\<close> are pointers (\<open>None\<close> is nil). The
  API client handle is not a field of the model: its calls are answered by the
  environment defined below.
\<close>

record Inspector =
  ContainerInfo :: "Container option"
  ContainerID :: string
  ContainerName :: string
  FatContainerCmd :: "string list"
  LocalVolumePath :: string
  CmdPort :: Port
  EvtPort :: Port
  DockerHostIP :: string
  ImageInspector :: image_Inspector
  Overrides :: "ContainerOverrides option"
  Links :: "string list"
  EtcHostsMaps :: "string list"
  DnsServers :: "string list"
  DnsSearchDomains :: "string list"
  ShowContainerLogs :: bool
  VolumeMounts :: "(string, VolumeMount) gomap"
  ExcludePaths :: "(string, bool) gomap"
  IncludePaths :: "(string, bool) gomap"
  DoDebug :: bool

definition IpcErrRecvTimeoutStr :: string where
  "IpcErrRecvTimeoutStr = ''receive time out''"

definition SensorBinPath :: string where
  "SensorBinPath = ''/opt/dockerslim/bin/sensor''"

definition ArtifactsDir :: string where
  "ArtifactsDir = ''artifacts''"

definition SensorBinLocal :: string where
  "SensorBinLocal = ''docker-slim-sensor''"

definition CmdPortDefault :: Port where
  "CmdPortDefault = ''65501/tcp''"

definition EvtPortDefault :: Port where
  "EvtPortDefault = ''65502/tcp''"

definition LabelName :: string where
  "LabelName = ''dockerslim''"

section \<open>NewInspector\<close>

text \<open>
  \<^verbatim>\<open>NewInspector\<close> (lines 79-134). The Go function also returns an error, which is
  always nil. Debug log lines are not part of the model.
\<close>

definition NewInspector ::
  "image_Inspector \<Rightarrow> string \<Rightarrow> ContainerOverrides option \<Rightarrow> string list \<Rightarrow> string list \<Rightarrow>
   string list \<Rightarrow> string list \<Rightarrow> bool \<Rightarrow> (string, VolumeMount) gomap \<Rightarrow>
   (string, bool) gomap \<Rightarrow> (string, bool) gomap \<Rightarrow> bool \<Rightarrow> Inspector" where
  "NewInspector imageInspector localVolumePath overrides links etcHostsMaps dnsServers
     dnsSearchDomains showContainerLogs volumeMounts excludePaths includePaths doDebug =
   (let inspector = \<lparr>
          ContainerInfo = None,
          ContainerID = [],
          ContainerName = [],
          FatContainerCmd = [],
          LocalVolumePath = localVolumePath,
          CmdPort = CmdPortDefault,
          EvtPort = EvtPortDefault,
          DockerHostIP = [],
          ImageInspector = imageInspector,
          Overrides = overrides,
          Links = links,
          EtcHostsMaps = etcHostsMaps,
          DnsServers = dnsServers,
          DnsSearchDomains = dnsSearchDomains,
          ShowContainerLogs = showContainerLogs,
          VolumeMounts = volumeMounts,
          ExcludePaths = excludePaths,
          IncludePaths = includePaths,
          DoDebug = doDebug \<rparr>;
        inspector1 =
          (if (case overrides of None \<Rightarrow> False
               | Some ov \<Rightarrow> length (Entrypoint ov) > 0 \<or> ClearEntrypoint ov)
           then (if length (Entrypoint (the overrides)) > 0
                 then inspector\<lparr>FatContainerCmd :=
                        FatContainerCmd inspector @ Entrypoint (the overrides)\<rparr>
                 else inspector)
           else if length (ImageEntrypoint imageInspector) > 0
           then inspector\<lparr>FatContainerCmd :=
                  FatContainerCmd inspector @ ImageEntrypoint imageInspector\<rparr>
           else inspector);
        inspector2 =
          (if (case overrides of None \<Rightarrow> False
               | Some ov \<Rightarrow> length (Cmd ov) > 0 \<or> ClearCmd ov)
           then (if length (Cmd (the overrides)) > 0
                 then inspector1\<lparr>FatContainerCmd :=
                        FatContainerCmd inspector1 @ Cmd (the overrides)\<rparr>
                 else inspector1)
           else if length (ImageCmd imageInspector) > 0
           then inspector1\<lparr>FatContainerCmd :=
                  FatContainerCmd inspector1 @ ImageCmd imageInspector\<rparr>
           else inspector1)
    in inspector2)"

text \<open>
  The merge rule in the words of the specification: the override wins when it supplies a
  non-empty list or asks for clearing, otherwise the image default is used.
\<close>

definition spec_resolve :: "string list \<Rightarrow> bool \<Rightarrow> string list \<Rightarrow> string list" where
  "spec_resolve override clear imageDefault =
     (if override \<noteq> [] \<or> clear then override else imageDefault)"

definition spec_FatContainerCmd ::
  "image_Inspector \<Rightarrow> ContainerOverrides option \<Rightarrow> string list" where
  "spec_FatContainerCmd imageInspector overrides =
     (case overrides of
        None \<Rightarrow> ImageEntrypoint imageInspector @ ImageCmd imageInspector
      | Some ov \<Rightarrow>
          spec_resolve (Entrypoint ov) (ClearEntrypoint ov) (ImageEntrypoint imageInspector) @
          spec_resolve (Cmd ov) (ClearCmd ov) (ImageCmd imageInspector))"

section \<open>The outside world\<close>

text \<open>
  Modelled from the spec: the commands of the sensor protocol are declared in package
  \<^verbatim>\<open>command\<close>, outside the embedded file. The specification gives the three commands
  and the four fields of the start command, which are the ones the inspector sets.
\<close>

record StartMonitor =
  AppName :: string
  AppArgs :: "string list"
  Excludes :: "string list"
  Includes :: "string list"

datatype Command = CmdStartMonitor StartMonitor | CmdStopMonitor | CmdShutdownSensor

text \<open>
  The argument records of the container runtime API, with the fields the inspector sets.
  The exposed-port map of the launch configuration is recorded by its content at the
  time of the create call, which is when the client library reads it.
\<close>

record dockerapi_Config =
  cfg_Image :: string
  cfg_Entrypoint :: "string list"
  cfg_Cmd :: "string list"
  cfg_Env :: "string list"
  cfg_Labels :: "(string, string) gomap"
  cfg_Hostname :: string
  cfg_ExposedPorts :: "(Port, unit) gomap"
  cfg_DNS :: "string list"

record dockerapi_HostConfig =
  Binds :: "string list"
  PublishAllPorts :: bool
  CapAdd :: "string list"
  Privileged :: bool
  NetworkMode :: string
  hc_Links :: "string list"
  ExtraHosts :: "string list"
  hc_DNS :: "string list"
  DNSSearch :: "string list"

record CreateContainerOptions =
  Name :: string
  Config :: dockerapi_Config
  HostConfig :: dockerapi_HostConfig

record RemoveContainerOptions =
  rm_ID :: string
  RemoveVolumes :: bool
  Force :: bool

record LogsOptions =
  logs_Container :: string
  Stdout :: bool
  Stderr :: bool

text \<open>
  Every call that leaves the inspector, and every line it logs at info or warning level
  or prints, is an event; a run produces the list of its events in the order they
  happen.
\<close>

datatype event =
    CreateContainer CreateContainerOptions
  | StartContainer string
  | InspectContainer string
  | StopContainer string nat
  | RemoveContainer RemoveContainerOptions
  | Logs LogsOptions
  | GetIP
  | InitContainerChannels string string string
  | SendContainerCmd Command
  | GetContainerEvt
  | ShutdownContainerChannels
  | LogInfo string
  | LogWarn string
  | Println string
  | WriteStdout string

text \<open>
  The environment of a run: what the operating system, the container runtime and the
  sensor channels answer, and in which order \<^verbatim>\<open>range\<close> visits the two reserved ports
  (\<open>commsEvtFirst\<close>). \<open>Join\<close> is \<^verbatim>\<open>filepath.Join\<close>.
\<close>

record env =
  ExeDir :: string
  Join :: "string \<Rightarrow> string \<Rightarrow> string"
  Getpid :: nat
  Now :: string
  commsEvtFirst :: bool
  createContainer :: "CreateContainerOptions \<Rightarrow> error + Container"
  startContainer :: "string \<Rightarrow> error option"
  inspectContainer :: "string \<Rightarrow> error + Container"
  getIP :: string
  initChannels :: "string \<Rightarrow> string \<Rightarrow> string \<Rightarrow> error option"
  sendContainerCmd :: "Command \<Rightarrow> error + string"
  getContainerEvt :: "error + string"
  stopContainer :: "string \<Rightarrow> nat \<Rightarrow> error option"
  removeContainer :: "RemoveContainerOptions \<Rightarrow> error option"
  logs :: "LogsOptions \<Rightarrow> error + string \<times> string"

definition err_of :: "error + 'a \<Rightarrow> error option" where
  "err_of r = (case r of Inl err \<Rightarrow> Some err | Inr _ \<Rightarrow> None)"

text \<open>
  Modelled from the spec: \<^verbatim>\<open>errutils.WarnOn\<close> is not in the embedded file. The
  specification has best-effort errors logged as warnings and never escalated.
\<close>

definition WarnOn :: "error option \<Rightarrow> event list" where
  "WarnOn err = (case err of None \<Rightarrow> [] | Some x \<Rightarrow> [LogWarn (Error x)])"

text \<open>
  Modelled from the spec: \<^verbatim>\<open>errutils.FailWhen\<close> is not in the embedded file. The
  specification has a violated launch precondition abort the run immediately, as a
  fatal failure; \<open>Some msg\<close> is that failure.
\<close>

definition FailWhen :: "bool \<Rightarrow> string \<Rightarrow> string option" where
  "FailWhen cond msg = (if cond then Some msg else None)"

section \<open>FinishMonitoring\<close>

text \<open>\<^verbatim>\<open>FinishMonitoring\<close> (lines 334-360). It returns nothing; the model gives its events.\<close>

definition FinishMonitoring :: "env \<Rightarrow> event list" where
  "FinishMonitoring e =
     (let err = err_of (sendContainerCmd e CmdStopMonitor);
          t = [SendContainerCmd CmdStopMonitor] @ WarnOn err;
          t = t @ [LogInfo ''waiting for the container to finish its work...''];
          err = err_of (getContainerEvt e);
          t = t @ [GetContainerEvt]
      in if (case err of None \<Rightarrow> False | Some x \<Rightarrow> Error x = IpcErrRecvTimeoutStr)
         then t @ [LogInfo
                ''timeout waiting for the docker-slim container to finish its work...'']
         else (let t = t @ WarnOn err;
                   err = err_of (sendContainerCmd e CmdShutdownSensor);
                   t = t @ [SendContainerCmd CmdShutdownSensor]
               in t @ WarnOn err))"

section \<open>ShutdownContainer\<close>

text \<open>\<^verbatim>\<open>showContainerLogs\<close> (lines 273-300).\<close>

definition showContainerLogs :: "env \<Rightarrow> Inspector \<Rightarrow> event list" where
  "showContainerLogs e i =
     (let logsOptions =
            \<lparr>logs_Container = ContainerID i, Stdout = True, Stderr = True\<rparr>
      in Logs logsOptions #
         (case logs e logsOptions of
            Inl err \<Rightarrow>
              [LogInfo (''error getting container logs => '' @ ContainerID i @ '' - '' @
                        Error err)]
          | Inr (outData, errData) \<Rightarrow>
              [Println ''docker-slim: container stdout:'',
               WriteStdout outData,
               Println ''docker-slim: container stderr:'',
               WriteStdout errData,
               Println ''docker-slim: end of container logs =============='']))"

text \<open>\<^verbatim>\<open>shutdownContainerChannels\<close> (lines 385-387).\<close>

definition shutdownContainerChannels :: "event list" where
  "shutdownContainerChannels = [ShutdownContainerChannels]"

text \<open>\<^verbatim>\<open>ShutdownContainer\<close> (lines 303-331).\<close>

definition ShutdownContainer :: "env \<Rightarrow> Inspector \<Rightarrow> outcome \<times> event list" where
  "ShutdownContainer e i =
     (let t = shutdownContainerChannels;
          t = (if ShowContainerLogs i then t @ showContainerLogs e i else t);
          err = stopContainer e (ContainerID i) 9;
          t = t @ [StopContainer (ContainerID i) 9];
          t = (case err of
                 Some (ContainerNotRunning _) \<Rightarrow>
                   (let t = t @ [LogInfo
                          ''can't stop the docker-slim container (container is not running)...'']
                    in if \<not> ShowContainerLogs i then t @ showContainerLogs e i else t)
               | _ \<Rightarrow> t @ WarnOn err);
          removeOption = \<lparr>rm_ID = ContainerID i, RemoveVolumes = True, Force = True\<rparr>;
          t = t @ [RemoveContainer removeOption]
      in (Returned None, t))"

section \<open>RunContainer\<close>

text \<open>\<^verbatim>\<open>pathMapKeys\<close> (lines 65-76): the keys, in the order the loop visits them.\<close>

definition pathMapKeys :: "(string, bool) gomap \<Rightarrow> string list" where
  "pathMapKeys m =
     (if gomap_len m = 0 then []
      else fold (\<lambda>(k, _) keys. keys @ [k]) m [])"

text \<open>Decimal text of a process id, as \<^verbatim>\<open>%v\<close> prints it.\<close>

fun showNat :: "nat \<Rightarrow> string" where
  "showNat n =
     (if n < 10 then [char_of (48 + n)]
      else showNat (n div 10) @ [char_of (48 + n mod 10)])"

declare showNat.simps [simp del]

text \<open>The format patterns of the file, applied to their arguments.\<close>

definition ContainerNamePat :: "string \<Rightarrow> string \<Rightarrow> string" where
  "ContainerNamePat a b = ''dockerslimk_'' @ a @ ''_'' @ b"

definition ArtifactsMountPat :: "string \<Rightarrow> string" where
  "ArtifactsMountPat p = p @ '':/opt/dockerslim/artifacts''"

definition SensorMountPat :: "string \<Rightarrow> string" where
  "SensorMountPat p = p @ '':/opt/dockerslim/bin/sensor:ro''"

text \<open>Lines 138-151: the bind mounts.\<close>

definition volumeBinds :: "env \<Rightarrow> Inspector \<Rightarrow> string list" where
  "volumeBinds e i =
     (let artifactsPath = Join e (LocalVolumePath i) ArtifactsDir;
          sensorPath = Join e (ExeDir e) SensorBinLocal;
          artifactsMountInfo = ArtifactsMountPat artifactsPath;
          sensorMountInfo = SensorMountPat sensorPath;
          volumeBinds =
            fold (\<lambda>(_, volumeMount) binds.
                    binds @ [Source volumeMount @ '':'' @ Destination volumeMount @ '':'' @
                             Options volumeMount])
                 (VolumeMounts i) [];
          volumeBinds = volumeBinds @ [artifactsMountInfo]
      in volumeBinds @ [sensorMountInfo])"

text \<open>Lines 153-156: the arguments of the sensor.\<close>

definition containerCmd :: "Inspector \<Rightarrow> string list" where
  "containerCmd i = (if DoDebug i then [''-d''] else [])"

text \<open>
  Lines 182-185: the map literal of the two reserved ports (one entry, should both
  fields hold the same port), and the order in which the run ranges over it.
\<close>

definition commsExposedPorts :: "Inspector \<Rightarrow> (Port, unit) gomap" where
  "commsExposedPorts i = gomap_set (EvtPort i) () (gomap_set (CmdPort i) () [])"

definition range_comms :: "env \<Rightarrow> (Port, unit) gomap \<Rightarrow> (Port \<times> unit) list" where
  "range_comms e m = (if commsEvtFirst e then rev m else m)"

text \<open>
  Lines 189-195: the loop. The launch configuration's port map is the user's map object
  at address \<open>a\<close>, so the loop reads and writes the store there.
\<close>

definition conflict_warning :: "Port \<Rightarrow> event" where
  "conflict_warning k = LogWarn (''RunContainer: comms port conflict => '' @ k)"

fun exposeCommsPorts :: "addr \<Rightarrow> (Port \<times> unit) list \<Rightarrow> heap \<Rightarrow> heap \<times> event list" where
  "exposeCommsPorts a [] h = (h, [])"
| "exposeCommsPorts a ((k, v) # kvs) h =
     (let warn = (if gomap_get (h a) k \<noteq> None then [conflict_warning k] else []);
          (h', warns) = exposeCommsPorts a kvs (h(a := gomap_set k v (h a)))
      in (h', warn @ warns))"

text \<open>Lines 182-200: the exposed ports of the launch configuration.\<close>

definition exposedPorts ::
  "env \<Rightarrow> Inspector \<Rightarrow> ContainerOverrides \<Rightarrow> heap \<Rightarrow> (Port, unit) gomap \<times> heap \<times> event list" where
  "exposedPorts e i ov h =
     (let comms = commsExposedPorts i
      in case ExposedPorts ov of
           None \<Rightarrow> (comms, h, [])
         | Some a \<Rightarrow>
             if gomap_len (h a) > 0
             then (let (h', warns) = exposeCommsPorts a (range_comms e comms) h
                   in (h' a, h', warns))
             else (comms, h, []))"

text \<open>Lines 160-180 and 202-227: the launch specification.\<close>

definition containerOptions ::
  "Inspector \<Rightarrow> ContainerOverrides \<Rightarrow> string list \<Rightarrow> string list \<Rightarrow> (Port, unit) gomap \<Rightarrow>
   CreateContainerOptions" where
  "containerOptions i ov binds cmd ports =
     \<lparr>Name = ContainerName i,
      Config = \<lparr>
        cfg_Image = ImageRef (ImageInspector i),
        cfg_Entrypoint = [SensorBinPath],
        cfg_Cmd = cmd,
        cfg_Env = Env ov,
        cfg_Labels = [(''type'', LabelName)],
        cfg_Hostname = Hostname ov,
        cfg_ExposedPorts = ports,
        cfg_DNS = (if length (DnsServers i) > 0 then DnsServers i else [])\<rparr>,
      HostConfig = \<lparr>
        Binds = binds,
        PublishAllPorts = True,
        CapAdd = [''SYS_ADMIN''],
        Privileged = True,
        NetworkMode = (if Network ov \<noteq> [] then Network ov else []),
        hc_Links = (if length (Links i) > 0 then Links i else []),
        ExtraHosts = (if length (EtcHostsMaps i) > 0 then EtcHostsMaps i else []),
        hc_DNS = (if length (DnsServers i) > 0 then DnsServers i else []),
        DNSSearch = (if length (DnsSearchDomains i) > 0 then DnsSearchDomains i else [])\<rparr>\<rparr>"

text \<open>
  \<^verbatim>\<open>initContainerChannels\<close> (lines 362-383). A key that is not in the port map reads as
  the nil slice; indexing an empty slice panics. The arguments of the channel call are
  evaluated left to right, after the host address has been fetched.
\<close>

definition initContainerChannels :: "env \<Rightarrow> Inspector \<Rightarrow> outcome \<times> Inspector \<times> event list" where
  "initContainerChannels e i =
     (case ContainerInfo i of
        None \<Rightarrow> (Panicked NilDereference, i, [])
      | Some info \<Rightarrow>
          (case NetworkSettings info of
             None \<Rightarrow> (Panicked NilDereference, i, [])
           | Some ns \<Rightarrow>
               (let cmdPortBindings =
                      (case gomap_get (Ports ns) (CmdPort i) of None \<Rightarrow> [] | Some bs \<Rightarrow> bs);
                    evtPortBindings =
                      (case gomap_get (Ports ns) (EvtPort i) of None \<Rightarrow> [] | Some bs \<Rightarrow> bs);
                    i = i\<lparr>DockerHostIP := getIP e\<rparr>;
                    t = [GetIP]
                in case cmdPortBindings of
                     [] \<Rightarrow> (Panicked IndexOutOfRange, i, t)
                   | c # _ \<Rightarrow>
                       (case evtPortBindings of
                          [] \<Rightarrow> (Panicked IndexOutOfRange, i, t)
                        | v # _ \<Rightarrow>
                            (Returned (initChannels e (DockerHostIP i) (HostPort c) (HostPort v)),
                             i,
                             t @ [InitContainerChannels (DockerHostIP i) (HostPort c)
                                    (HostPort v)])))))"

text \<open>
  \<^verbatim>\<open>RunContainer\<close> (lines 137-271) is embedded as four consecutive parts of its body. A
  part yields how it ends, the inspector and the store as it leaves them, and its
  events; \<open>Returned None\<close> from a part that is not the last one means that control falls
  through to the next line.

  Lines 138-243: build the launch specification, then create, start and inspect the
  container. The first read through the overrides pointer (line 170) panics when it is
  nil.
\<close>

definition launch ::
  "env \<Rightarrow> Inspector \<Rightarrow> heap \<Rightarrow> outcome \<times> Inspector \<times> heap \<times> event list" where
  "launch e i h =
     (let binds = volumeBinds e i;
          cmd = containerCmd i;
          i = i\<lparr>ContainerName := ContainerNamePat (showNat (Getpid e)) (Now e)\<rparr>
      in case Overrides i of
           None \<Rightarrow> (Panicked NilDereference, i, h, [])
         | Some ov \<Rightarrow>
      (let (ports, h, t) = exposedPorts e i ov h;
           opts = containerOptions i ov binds cmd ports;
           t = t @ [CreateContainer opts]
       in case createContainer e opts of
            Inl err \<Rightarrow> (Returned (Some err), i, h, t)
          | Inr containerInfo \<Rightarrow>
      (let i = i\<lparr>ContainerID := ID containerInfo\<rparr>;
           t = t @ [LogInfo (''RunContainer: created container => '' @ ContainerID i)];
           t = t @ [StartContainer (ContainerID i)]
       in case startContainer e (ContainerID i) of
            Some err \<Rightarrow> (Returned (Some err), i, h, t)
          | None \<Rightarrow>
      (let t = t @ [InspectContainer (ContainerID i)]
       in case inspectContainer e (ContainerID i) of
            Inl err \<Rightarrow> (Returned (Some err), i\<lparr>ContainerInfo := None\<rparr>, h, t)
          | Inr info \<Rightarrow> (Returned None, i\<lparr>ContainerInfo := Some info\<rparr>, h, t)))))"

text \<open>
  Lines 245-246: the two checks on the inspected state. The second argument list is
  evaluated only if the first check did not end the run.
\<close>

definition checkNetworkSettings :: "Inspector \<Rightarrow> outcome" where
  "checkNetworkSettings i =
     (case ContainerInfo i of
        None \<Rightarrow> Panicked NilDereference
      | Some info \<Rightarrow>
          (case FailWhen (NetworkSettings info = None)
                  ''docker-slim: error => no network info'' of
             Some msg \<Rightarrow> Exited msg
           | None \<Rightarrow>
               (case NetworkSettings info of
                  None \<Rightarrow> Panicked NilDereference
                | Some ns \<Rightarrow>
                    (case FailWhen (gomap_len (Ports ns) < gomap_len (commsExposedPorts i))
                            ''docker-slim: error => missing comms ports'' of
                       Some msg \<Rightarrow> Exited msg
                     | None \<Rightarrow> Returned None))))"

text \<open>
  Lines 253-267: the start command. Reading the first token of an empty command panics.
\<close>

definition startMonitorCmd :: "Inspector \<Rightarrow> panic + StartMonitor" where
  "startMonitorCmd i =
     (case FatContainerCmd i of
        [] \<Rightarrow> Inl IndexOutOfRange
      | appName # _ \<Rightarrow>
          (let cmd = \<lparr>AppName = appName, AppArgs = [], Excludes = [], Includes = []\<rparr>;
               cmd = (if length (FatContainerCmd i) > 1
                      then cmd\<lparr>AppArgs := drop 1 (FatContainerCmd i)\<rparr> else cmd);
               cmd = (if gomap_len (ExcludePaths i) > 0
                      then cmd\<lparr>Excludes := pathMapKeys (ExcludePaths i)\<rparr> else cmd);
               cmd = (if gomap_len (IncludePaths i) > 0
                      then cmd\<lparr>Includes := pathMapKeys (IncludePaths i)\<rparr> else cmd)
           in Inr cmd))"

text \<open>Lines 253-270: build the start command and send it.\<close>

definition sendStartMonitor :: "env \<Rightarrow> Inspector \<Rightarrow> outcome \<times> event list" where
  "sendStartMonitor e i =
     (case startMonitorCmd i of
        Inl p \<Rightarrow> (Panicked p, [])
      | Inr cmd \<Rightarrow>
          (Returned (err_of (sendContainerCmd e (CmdStartMonitor cmd))),
           [SendContainerCmd (CmdStartMonitor cmd)]))"

definition RunContainer ::
  "env \<Rightarrow> Inspector \<Rightarrow> heap \<Rightarrow> outcome \<times> Inspector \<times> heap \<times> event list" where
  "RunContainer e i h =
     (let (r, i, h, t) = launch e i h
      in if r \<noteq> Returned None then (r, i, h, t)
         else
     (let r = checkNetworkSettings i
      in if r \<noteq> Returned None then (r, i, h, t)
         else
     (let (r, i, t') = initContainerChannels e i;
          t = t @ t'
      in if r \<noteq> Returned None then (r, i, h, t)
         else
     (let (r, t') = sendStartMonitor e i
      in (r, i, h, t @ t')))))"

text \<open>The four components of the result of a run.\<close>

definition outcome_of :: "outcome \<times> Inspector \<times> heap \<times> event list \<Rightarrow> outcome" where
  "outcome_of x = fst x"

definition inspector_of :: "outcome \<times> Inspector \<times> heap \<times> event list \<Rightarrow> Inspector" where
  "inspector_of x = fst (snd x)"

definition heap_of :: "outcome \<times> Inspector \<times> heap \<times> event list \<Rightarrow> heap" where
  "heap_of x = fst (snd (snd x))"

definition events_of :: "outcome \<times> Inspector \<times> heap \<times> event list \<Rightarrow> event list" where
  "events_of x = snd (snd (snd x))"

section \<open>Observing a run\<close>

text \<open>
  The calls of a run are its events without the log lines and the printed output.
\<close>

fun is_call :: "event \<Rightarrow> bool" where
  "is_call (LogInfo _) = False"
| "is_call (LogWarn _) = False"
| "is_call (Println _) = False"
| "is_call (WriteStdout _) = False"
| "is_call _ = True"

definition calls :: "event list \<Rightarrow> event list" where
  "calls t = filter is_call t"

text \<open>The events that open or use a channel to the sensor.\<close>

fun is_channel_event :: "event \<Rightarrow> bool" where
  "is_channel_event GetIP = True"
| "is_channel_event (InitContainerChannels _ _ _) = True"
| "is_channel_event (SendContainerCmd _) = True"
| "is_channel_event GetContainerEvt = True"
| "is_channel_event _ = False"

text \<open>The wait for the sensor's event ended with the receive time-out.\<close>

definition evt_timeout :: "env \<Rightarrow> bool" where
  "evt_timeout e =
     (case getContainerEvt e of Inl x \<Rightarrow> Error x = IpcErrRecvTimeoutStr | Inr _ \<Rightarrow> False)"

text \<open>The runtime answers the stop request with "container not running".\<close>

definition stop_not_running :: "env \<Rightarrow> Inspector \<Rightarrow> bool" where
  "stop_not_running e i =
     (case stopContainer e (ContainerID i) 9 of
        Some (ContainerNotRunning _) \<Rightarrow> True | _ \<Rightarrow> False)"

text \<open>The keys a user asked to expose: those of the overrides' port map, if there is one.\<close>

definition userPorts :: "ContainerOverrides \<Rightarrow> heap \<Rightarrow> Port set" where
  "userPorts ov h = (case ExposedPorts ov of None \<Rightarrow> {} | Some a \<Rightarrow> fst ` set (h a))"

text \<open>The user's port map, if there is one, has one entry per key, as every Go map has.\<close>

definition userPorts_wf :: "ContainerOverrides \<Rightarrow> heap \<Rightarrow> bool" where
  "userPorts_wf ov h = (case ExposedPorts ov of None \<Rightarrow> True | Some a \<Rightarrow> gomap_wf (h a))"

text \<open>
  The launch specification that \<open>launch\<close> passes to the create call, when the overrides
  pointer is not nil.
\<close>

definition launchSpec :: "env \<Rightarrow> Inspector \<Rightarrow> ContainerOverrides \<Rightarrow> heap \<Rightarrow> CreateContainerOptions" where
  "launchSpec e i ov h =
     containerOptions (i\<lparr>ContainerName := ContainerNamePat (showNat (Getpid e)) (Now e)\<rparr>) ov
       (volumeBinds e i) (containerCmd i) (fst (exposedPorts e i ov h))"

text \<open>The inspected port map has no host binding to read for port \<open>p\<close>.\<close>

definition no_binding :: "NetworkSettings \<Rightarrow> Port \<Rightarrow> bool" where
  "no_binding ns p = (case gomap_get (Ports ns) p of None \<Rightarrow> True | Some bs \<Rightarrow> bs = [])"

section \<open>Example runs\<close>

definition ex_image :: image_Inspector where
  "ex_image =
     \<lparr>ImageRef = ''app:latest'', ImageEntrypoint = [],
      ImageCmd = [''/bin/app'', ''--flag''], ArtifactLocation = ''/tmp/state/artifacts'',
      AppArmorProfileName = ''app-apparmor-profile'',
      SeccompProfileName = ''app-seccomp.json''\<rparr>"

definition ex_overrides :: "addr option \<Rightarrow> ContainerOverrides" where
  "ex_overrides ports =
     \<lparr>Entrypoint = [], ClearEntrypoint = False, Cmd = [], ClearCmd = False,
      Env = [''A=1''], Hostname = ''box'', Network = [], ExposedPorts = ports\<rparr>"

text \<open>A store whose map object at address 7 holds two user ports, one of them reserved.\<close>

definition ex_heap :: heap where
  "ex_heap = (\<lambda>a. if a = 7 then [(''8080/tcp'', ()), (''65502/tcp'', ())] else [])"

definition ex_inspector :: "ContainerOverrides option \<Rightarrow> Inspector" where
  "ex_inspector overrides =
     NewInspector ex_image ''/tmp/state'' overrides [] [] [] [] False []
       [(''/var/log'', True), (''/tmp'', True)] [] False"

definition ex_container :: "(Port, PortBinding list) gomap \<Rightarrow> Container" where
  "ex_container ports = \<lparr>ID = ''c0ffee'', NetworkSettings = Some \<lparr>Ports = ports\<rparr>\<rparr>"

definition ex_ports :: "(Port, PortBinding list) gomap" where
  "ex_ports =
     [(''65501/tcp'', [\<lparr>HostIP = ''0.0.0.0'', HostPort = ''32768''\<rparr>]),
      (''65502/tcp'', [\<lparr>HostIP = ''0.0.0.0'', HostPort = ''32769''\<rparr>])]"

text \<open>An environment in which every call succeeds and the sensor reports its event.\<close>

definition ex_env :: "Container \<Rightarrow> env" where
  "ex_env inspected =
     \<lparr>ExeDir = ''/usr/local/bin'', Join = (\<lambda>a b. a @ ''/'' @ b), Getpid = 4242,
      Now = ''20240101120000'', commsEvtFirst = False,
      createContainer = (\<lambda>_. Inr \<lparr>ID = ''c0ffee'', NetworkSettings = None\<rparr>),
      startContainer = (\<lambda>_. None),
      inspectContainer = (\<lambda>_. Inr inspected),
      getIP = ''127.0.0.1'',
      initChannels = (\<lambda>_ _ _. None),
      sendContainerCmd = (\<lambda>_. Inr ''ok''),
      getContainerEvt = Inr ''done'',
      stopContainer = (\<lambda>_ _. None),
      removeContainer = (\<lambda>_. None),
      logs = (\<lambda>_. Inr (''out'', ''err''))\<rparr>"

section \<open>Properties\<close>

lemma NewInspector_fields:
  "Overrides (NewInspector ii lvp ov ls eh ds dd sl vm ex inc dbg) = ov"
  "CmdPort (NewInspector ii lvp ov ls eh ds dd sl vm ex inc dbg) = CmdPortDefault"
  "EvtPort (NewInspector ii lvp ov ls eh ds dd sl vm ex inc dbg) = EvtPortDefault"
  "ExcludePaths (NewInspector ii lvp ov ls eh ds dd sl vm ex inc dbg) = ex"
  "IncludePaths (NewInspector ii lvp ov ls eh ds dd sl vm ex inc dbg) = inc"
  "ImageInspector (NewInspector ii lvp ov ls eh ds dd sl vm ex inc dbg) = ii"
  by (simp_all add: NewInspector_def Let_def)

text \<open>
  C2. For all image defaults and all overrides, nil included, the command resolved by
  \<open>NewInspector\<close> is the resolved entrypoint followed by the resolved cmd, each resolved
  by the merge rule on its own; nil overrides give what overrides that request nothing
  give.
\<close>

theorem NewInspector_resolves_FatContainerCmd:
  "FatContainerCmd (NewInspector ii lvp overrides ls eh ds dd sl vm ex inc dbg) =
     spec_FatContainerCmd ii overrides
   \<and> (Entrypoint ov = [] \<and> \<not> ClearEntrypoint ov \<and> Cmd ov = [] \<and> \<not> ClearCmd ov \<longrightarrow>
      FatContainerCmd (NewInspector ii lvp None ls eh ds dd sl vm ex inc dbg) =
      FatContainerCmd (NewInspector ii lvp (Some ov) ls eh ds dd sl vm ex inc dbg))"
  by (cases overrides)
     (simp_all add: NewInspector_def Let_def spec_FatContainerCmd_def spec_resolve_def)

theorem NewInspector_resolves_FatContainerCmd_witness:
  "FatContainerCmd
     (NewInspector
        \<lparr>ImageRef = ''app:latest'', ImageEntrypoint = [],
         ImageCmd = [''/bin/app'', ''--flag''], ArtifactLocation = ''/tmp/a'',
         AppArmorProfileName = ''aa'', SeccompProfileName = ''sc''\<rparr>
        ''/tmp/vol''
        (Some \<lparr>Entrypoint = [''/bin/custom''], ClearEntrypoint = False, Cmd = [],
               ClearCmd = True, Env = [], Hostname = [], Network = [],
               ExposedPorts = None\<rparr>)
        [] [] [] [] False [] [] [] False)
   = [''/bin/custom'']
   \<and> FatContainerCmd
     (NewInspector
        \<lparr>ImageRef = ''app:latest'', ImageEntrypoint = [],
         ImageCmd = [''/bin/app'', ''--flag''], ArtifactLocation = ''/tmp/a'',
         AppArmorProfileName = ''aa'', SeccompProfileName = ''sc''\<rparr>
        ''/tmp/vol'' None [] [] [] [] False [] [] [] False)
   = FatContainerCmd
     (NewInspector
        \<lparr>ImageRef = ''app:latest'', ImageEntrypoint = [],
         ImageCmd = [''/bin/app'', ''--flag''], ArtifactLocation = ''/tmp/a'',
         AppArmorProfileName = ''aa'', SeccompProfileName = ''sc''\<rparr>
        ''/tmp/vol''
        (Some \<lparr>Entrypoint = [], ClearEntrypoint = False, Cmd = [],
               ClearCmd = False, Env = [], Hostname = [], Network = [],
               ExposedPorts = None\<rparr>)
        [] [] [] [] False [] [] [] False)"
  using NewInspector_resolves_FatContainerCmd
    [of "\<lparr>ImageRef = ''app:latest'', ImageEntrypoint = [],
         ImageCmd = [''/bin/app'', ''--flag''], ArtifactLocation = ''/tmp/a'',
         AppArmorProfileName = ''aa'', SeccompProfileName = ''sc''\<rparr>"
        "''/tmp/vol''"
        "Some \<lparr>Entrypoint = [''/bin/custom''], ClearEntrypoint = False, Cmd = [],
               ClearCmd = True, Env = [], Hostname = [], Network = [],
               ExposedPorts = None\<rparr>"
        "[]" "[]" "[]" "[]" False "[]" "[]" "[]" False
        "\<lparr>Entrypoint = [], ClearEntrypoint = False, Cmd = [],
               ClearCmd = False, Env = [], Hostname = [], Network = [],
               ExposedPorts = None\<rparr>"]
  by (simp add: spec_FatContainerCmd_def spec_resolve_def)

subsection \<open>Calls of a run\<close>

lemma calls_Nil [simp]: "calls [] = []"
  by (simp add: calls_def)

lemma calls_Cons: "calls (x # a) = (if is_call x then x # calls a else calls a)"
  by (simp add: calls_def)

lemma calls_append [simp]: "calls (a @ b) = calls a @ calls b"
  by (simp add: calls_def)

lemma calls_WarnOn [simp]: "calls (WarnOn err) = []"
  by (cases err) (simp_all add: WarnOn_def calls_def)

lemma count_calls: "is_call x \<Longrightarrow> count_list (calls t) x = count_list t x"
  by (induction t) (auto simp: calls_def)

subsection \<open>FinishMonitoring\<close>

lemma FinishMonitoring_calls:
  "calls (FinishMonitoring e) =
     [SendContainerCmd CmdStopMonitor, GetContainerEvt] @
     (if evt_timeout e then [] else [SendContainerCmd CmdShutdownSensor])"
  by (cases "getContainerEvt e")
     (simp_all add: FinishMonitoring_def Let_def evt_timeout_def err_of_def calls_Cons)

text \<open>
  C1, as stated, fails: in the third scenario (the stop command succeeds, the wait for
  the event times out) \<open>FinishMonitoring\<close> returns from its time-out branch and the
  shutdown command is not sent at all.
\<close>

theorem FinishMonitoring_timeout_counterexample:
  "err_of (sendContainerCmd
             ((ex_env (ex_container ex_ports))
                \<lparr>getContainerEvt := Inl (OtherError ''receive time out'')\<rparr>)
             CmdStopMonitor) = None
   \<and> evt_timeout ((ex_env (ex_container ex_ports))
                    \<lparr>getContainerEvt := Inl (OtherError ''receive time out'')\<rparr>)
   \<and> count_list
       (FinishMonitoring ((ex_env (ex_container ex_ports))
                            \<lparr>getContainerEvt := Inl (OtherError ''receive time out'')\<rparr>))
       (SendContainerCmd CmdShutdownSensor) = 0"
  by (simp add: FinishMonitoring_def Let_def evt_timeout_def err_of_def ex_env_def
        IpcErrRecvTimeoutStr_def WarnOn_def)

text \<open>
  C1, amended. \<open>FinishMonitoring\<close> always sends the stop command and then waits for the
  event, whatever the stop command returned. Unless the wait ends with the receive
  time-out, it then sends the shutdown command, exactly once, whatever the stop command
  and the wait returned; when the wait times out it sends no shutdown command.
\<close>

theorem FinishMonitoring_ShutdownSensor:
  "calls (FinishMonitoring e) =
     [SendContainerCmd CmdStopMonitor, GetContainerEvt] @
     (if evt_timeout e then [] else [SendContainerCmd CmdShutdownSensor])
   \<and> count_list (FinishMonitoring e) (SendContainerCmd CmdShutdownSensor) =
       (if evt_timeout e then 0 else 1)"
proof -
  have c: "calls (FinishMonitoring e) =
     [SendContainerCmd CmdStopMonitor, GetContainerEvt] @
     (if evt_timeout e then [] else [SendContainerCmd CmdShutdownSensor])"
    by (rule FinishMonitoring_calls)
  have "count_list (FinishMonitoring e) (SendContainerCmd CmdShutdownSensor) =
        count_list (calls (FinishMonitoring e)) (SendContainerCmd CmdShutdownSensor)"
    by (simp add: count_calls)
  also have "\<dots> = (if evt_timeout e then 0 else 1)"
    by (simp add: c)
  finally show ?thesis using c by simp
qed

text \<open>
  The first two scenarios of C1 at concrete environments: the event arrives, and the
  stop command succeeds or fails.
\<close>

theorem FinishMonitoring_ShutdownSensor_witness:
  "\<not> evt_timeout (ex_env (ex_container ex_ports))
   \<and> count_list (FinishMonitoring (ex_env (ex_container ex_ports)))
       (SendContainerCmd CmdShutdownSensor) = 1
   \<and> err_of (sendContainerCmd
               ((ex_env (ex_container ex_ports))
                  \<lparr>sendContainerCmd := (\<lambda>_. Inl (OtherError ''connection refused''))\<rparr>)
               CmdStopMonitor) \<noteq> None
   \<and> count_list
       (FinishMonitoring
          ((ex_env (ex_container ex_ports))
             \<lparr>sendContainerCmd := (\<lambda>_. Inl (OtherError ''connection refused''))\<rparr>))
       (SendContainerCmd CmdShutdownSensor) = 1"
  using FinishMonitoring_ShutdownSensor [of "ex_env (ex_container ex_ports)"]
    FinishMonitoring_ShutdownSensor
      [of "(ex_env (ex_container ex_ports))
             \<lparr>sendContainerCmd := (\<lambda>_. Inl (OtherError ''connection refused''))\<rparr>"]
  by (simp add: evt_timeout_def ex_env_def err_of_def)

subsection \<open>ShutdownContainer\<close>

lemma calls_showContainerLogs [simp]:
  "calls (showContainerLogs e i) =
     [Logs \<lparr>logs_Container = ContainerID i, Stdout = True, Stderr = True\<rparr>]"
  by (simp add: showContainerLogs_def Let_def calls_Cons split: sum.splits prod.splits)

lemma no_warn_showContainerLogs: "LogWarn w \<notin> set (showContainerLogs e i)"
  by (simp add: showContainerLogs_def Let_def split: sum.splits prod.splits)

lemma ShutdownContainer_calls:
  "calls (snd (ShutdownContainer e i)) =
     [ShutdownContainerChannels] @
     (if ShowContainerLogs i
      then [Logs \<lparr>logs_Container = ContainerID i, Stdout = True, Stderr = True\<rparr>] else []) @
     [StopContainer (ContainerID i) 9] @
     (if stop_not_running e i \<and> \<not> ShowContainerLogs i
      then [Logs \<lparr>logs_Container = ContainerID i, Stdout = True, Stderr = True\<rparr>] else []) @
     [RemoveContainer \<lparr>rm_ID = ContainerID i, RemoveVolumes = True, Force = True\<rparr>]"
  by (simp add: ShutdownContainer_def Let_def stop_not_running_def shutdownContainerChannels_def
        calls_Cons split: option.splits error.splits)

lemma ShutdownContainer_not_running:
  assumes "stop_not_running e i"
  shows "LogWarn w \<notin> set (snd (ShutdownContainer e i))"
    and "LogInfo ''can't stop the docker-slim container (container is not running)...''
          \<in> set (snd (ShutdownContainer e i))"
  using assms
  by (auto simp add: ShutdownContainer_def Let_def stop_not_running_def
        shutdownContainerChannels_def no_warn_showContainerLogs
        split: option.splits error.splits)

text \<open>
  C6. \<open>ShutdownContainer\<close> returns nil in every environment. Its calls are, in this
  order: the channel shutdown; the log fetch if log capture was requested; the stop
  with grace period 9; the log fetch if the stop answered "not running" and the logs
  were not fetched before; the forced removal with volumes. When the stop answers "not
  running", an info line is logged and no warning.
\<close>

theorem ShutdownContainer_steps:
  "fst (ShutdownContainer e i) = Returned None
   \<and> calls (snd (ShutdownContainer e i)) =
       [ShutdownContainerChannels] @
       (if ShowContainerLogs i
        then [Logs \<lparr>logs_Container = ContainerID i, Stdout = True, Stderr = True\<rparr>]
        else []) @
       [StopContainer (ContainerID i) 9] @
       (if stop_not_running e i \<and> \<not> ShowContainerLogs i
        then [Logs \<lparr>logs_Container = ContainerID i, Stdout = True, Stderr = True\<rparr>]
        else []) @
       [RemoveContainer \<lparr>rm_ID = ContainerID i, RemoveVolumes = True, Force = True\<rparr>]
   \<and> (stop_not_running e i \<longrightarrow>
        (\<forall>w. LogWarn w \<notin> set (snd (ShutdownContainer e i)))
        \<and> LogInfo ''can't stop the docker-slim container (container is not running)...''
            \<in> set (snd (ShutdownContainer e i)))"
proof -
  have "fst (ShutdownContainer e i) = Returned None"
    by (simp add: ShutdownContainer_def Let_def)
  then show ?thesis
    using ShutdownContainer_calls [of e i] ShutdownContainer_not_running [of e i]
    by blast
qed

theorem ShutdownContainer_steps_witness:
  "stop_not_running
     ((ex_env (ex_container ex_ports))
        \<lparr>stopContainer := (\<lambda>_ _. Some (ContainerNotRunning ''c0ffee''))\<rparr>)
     ((ex_inspector None)\<lparr>ContainerID := ''c0ffee''\<rparr>)
   \<and> calls (snd (ShutdownContainer
        ((ex_env (ex_container ex_ports))
           \<lparr>stopContainer := (\<lambda>_ _. Some (ContainerNotRunning ''c0ffee''))\<rparr>)
        ((ex_inspector None)\<lparr>ContainerID := ''c0ffee''\<rparr>))) =
       [ShutdownContainerChannels,
        StopContainer ''c0ffee'' 9,
        Logs \<lparr>logs_Container = ''c0ffee'', Stdout = True, Stderr = True\<rparr>,
        RemoveContainer \<lparr>rm_ID = ''c0ffee'', RemoveVolumes = True, Force = True\<rparr>]
   \<and> LogInfo ''can't stop the docker-slim container (container is not running)...''
       \<in> set (snd (ShutdownContainer
            ((ex_env (ex_container ex_ports))
               \<lparr>stopContainer := (\<lambda>_ _. Some (ContainerNotRunning ''c0ffee''))\<rparr>)
            ((ex_inspector None)\<lparr>ContainerID := ''c0ffee''\<rparr>)))"
proof -
  have nr: "stop_not_running
     ((ex_env (ex_container ex_ports))
        \<lparr>stopContainer := (\<lambda>_ _. Some (ContainerNotRunning ''c0ffee''))\<rparr>)
     ((ex_inspector None)\<lparr>ContainerID := ''c0ffee''\<rparr>)"
    by (simp add: stop_not_running_def ex_env_def)
  have sl: "\<not> ShowContainerLogs ((ex_inspector None)\<lparr>ContainerID := ''c0ffee''\<rparr>)"
    by (simp add: ex_inspector_def NewInspector_def Let_def)
  show ?thesis
    using nr sl
      ShutdownContainer_steps
        [of "(ex_env (ex_container ex_ports))
               \<lparr>stopContainer := (\<lambda>_ _. Some (ContainerNotRunning ''c0ffee''))\<rparr>"
            "(ex_inspector None)\<lparr>ContainerID := ''c0ffee''\<rparr>"]
    by simp
qed

subsection \<open>Go maps\<close>

lemma gomap_set_keys: "fst ` set (gomap_set k v m) = insert k (fst ` set m)"
  by (induction m) auto

lemma gomap_set_map_fst:
  "map fst (gomap_set k v m) = (if k \<in> fst ` set m then map fst m else map fst m @ [k])"
  by (induction m) auto

lemma gomap_set_wf: "gomap_wf m \<Longrightarrow> gomap_wf (gomap_set k v m)"
  by (simp add: gomap_wf_def gomap_set_map_fst)

lemma gomap_get_None_iff: "gomap_get m k = None \<longleftrightarrow> k \<notin> fst ` set m"
  by (simp add: gomap_get_def map_of_eq_None_iff)

lemma gomap_get_unit: "gomap_get (m :: ('k, unit) gomap) k = Some () \<longleftrightarrow> k \<in> fst ` set m"
  using gomap_get_None_iff [of m k] by (cases "gomap_get m k") auto

lemma pathMapKeys_fold: "fold (\<lambda>(k, _) keys. keys @ [k]) m acc = acc @ map fst m"
  by (induction m arbitrary: acc) (auto split: prod.splits)

lemma pathMapKeys_eq: "pathMapKeys m = map fst m"
  by (cases m) (simp_all add: pathMapKeys_def gomap_len_def pathMapKeys_fold split: prod.splits)

subsection \<open>The exposed ports\<close>

lemma conflict_warning_inj [simp]: "conflict_warning k = conflict_warning k' \<longleftrightarrow> k = k'"
  by (simp add: conflict_warning_def)

lemma exposeCommsPorts_Cons:
  "exposeCommsPorts a ((k, v) # kvs) h =
     (fst (exposeCommsPorts a kvs (h(a := gomap_set k v (h a)))),
      (if k \<in> fst ` set (h a) then [conflict_warning k] else []) @
      snd (exposeCommsPorts a kvs (h(a := gomap_set k v (h a)))))"
  by (simp add: Let_def gomap_get_None_iff split: prod.splits)

lemma exposeCommsPorts_other:
  "b \<noteq> a \<Longrightarrow> fst (exposeCommsPorts a kvs h) b = h b"
proof (induction kvs arbitrary: h)
  case Nil
  then show ?case by simp
next
  case (Cons kv kvs)
  obtain k v where kv: "kv = (k, v)" by (cases kv)
  define h1 where "h1 = h(a := gomap_set k v (h a))"
  have "fst (exposeCommsPorts a kvs h1) b = h1 b" using Cons.prems by (rule Cons.IH)
  moreover have "h1 b = h b" using Cons.prems by (simp add: h1_def)
  ultimately show ?case unfolding kv exposeCommsPorts_Cons h1_def [symmetric] by simp
qed

lemma exposeCommsPorts_keys:
  "fst ` set (fst (exposeCommsPorts a kvs h) a) = fst ` set (h a) \<union> fst ` set kvs"
proof (induction kvs arbitrary: h)
  case Nil
  then show ?case by simp
next
  case (Cons kv kvs)
  obtain k v where kv: "kv = (k, v)" by (cases kv)
  define h1 where "h1 = h(a := gomap_set k v (h a))"
  have "fst ` set (fst (exposeCommsPorts a kvs h1) a) = fst ` set (h1 a) \<union> fst ` set kvs"
    by (rule Cons.IH)
  moreover have "h1 a = gomap_set k v (h a)" by (simp add: h1_def)
  ultimately show ?case unfolding kv exposeCommsPorts_Cons h1_def [symmetric]
    by (simp add: gomap_set_keys)
qed

lemma exposeCommsPorts_wf:
  "gomap_wf (h a) \<Longrightarrow> gomap_wf (fst (exposeCommsPorts a kvs h) a)"
proof (induction kvs arbitrary: h)
  case Nil
  then show ?case by simp
next
  case (Cons kv kvs)
  obtain k v where kv: "kv = (k, v)" by (cases kv)
  define h1 where "h1 = h(a := gomap_set k v (h a))"
  have "gomap_wf (h1 a)" using Cons.prems by (simp add: h1_def gomap_set_wf)
  then have "gomap_wf (fst (exposeCommsPorts a kvs h1) a)" by (rule Cons.IH)
  then show ?case unfolding kv exposeCommsPorts_Cons h1_def [symmetric] by simp
qed

lemma exposeCommsPorts_only_warnings:
  "ev \<in> set (snd (exposeCommsPorts a kvs h)) \<Longrightarrow> \<exists>k \<in> fst ` set kvs. ev = conflict_warning k"
proof (induction kvs arbitrary: h)
  case Nil
  then show ?case by simp
next
  case (Cons kv kvs)
  obtain k v where kv: "kv = (k, v)" by (cases kv)
  define h1 where "h1 = h(a := gomap_set k v (h a))"
  from Cons.prems
  have "ev = conflict_warning k \<or> ev \<in> set (snd (exposeCommsPorts a kvs h1))"
    unfolding kv exposeCommsPorts_Cons h1_def [symmetric] by (auto split: if_splits)
  then show ?case using Cons.IH [of h1] kv by auto
qed

lemma exposeCommsPorts_warns:
  "distinct (map fst kvs) \<Longrightarrow> k \<in> fst ` set kvs \<Longrightarrow>
   conflict_warning k \<in> set (snd (exposeCommsPorts a kvs h)) \<longleftrightarrow> k \<in> fst ` set (h a)"
proof (induction kvs arbitrary: h)
  case Nil
  then show ?case by simp
next
  case (Cons kv kvs)
  obtain k0 v where kv: "kv = (k0, v)" by (cases kv)
  from Cons.prems(1) kv have d: "distinct (map fst kvs)" and nk: "k0 \<notin> fst ` set kvs" by auto
  define h1 where "h1 = h(a := gomap_set k0 v (h a))"
  have h1a: "h1 a = gomap_set k0 v (h a)" by (simp add: h1_def)
  show ?case
  proof (cases "k = k0")
    case True
    have "conflict_warning k0 \<notin> set (snd (exposeCommsPorts a kvs h1))"
      using exposeCommsPorts_only_warnings [of "conflict_warning k0" a kvs h1] nk by auto
    then show ?thesis unfolding kv exposeCommsPorts_Cons h1_def [symmetric] using True by simp
  next
    case False
    with Cons.prems(2) kv have "k \<in> fst ` set kvs" by auto
    from Cons.IH [OF d this, of h1] False
    show ?thesis unfolding kv exposeCommsPorts_Cons h1_def [symmetric]
      by (simp add: gomap_set_keys h1a)
  qed
qed

lemma commsExposedPorts_keys: "fst ` set (commsExposedPorts i) = {CmdPort i, EvtPort i}"
  by (auto simp: commsExposedPorts_def)

lemma commsExposedPorts_wf: "gomap_wf (commsExposedPorts i)"
  by (simp add: commsExposedPorts_def gomap_wf_def)

lemma commsExposedPorts_len:
  "gomap_len (commsExposedPorts i) = (if CmdPort i = EvtPort i then 1 else 2)"
  by (simp add: commsExposedPorts_def gomap_len_def)

lemma range_comms_keys: "fst ` set (range_comms e m) = fst ` set m"
  by (simp add: range_comms_def)

lemma range_comms_distinct: "distinct (map fst (range_comms e m)) = distinct (map fst m)"
  by (simp add: range_comms_def rev_map [symmetric])

lemma exposedPorts_keys:
  "fst ` set (fst (exposedPorts e i ov h)) = userPorts ov h \<union> {CmdPort i, EvtPort i}"
  by (auto simp add: exposedPorts_def Let_def userPorts_def gomap_len_def split_beta
        exposeCommsPorts_keys range_comms_keys commsExposedPorts_keys
        split: option.splits)

lemma exposedPorts_wf:
  "userPorts_wf ov h \<Longrightarrow> gomap_wf (fst (exposedPorts e i ov h))"
  by (auto simp add: exposedPorts_def Let_def userPorts_wf_def commsExposedPorts_wf split_beta
        exposeCommsPorts_wf split: option.splits)

lemma exposedPorts_events:
  "ev \<in> set (snd (snd (exposedPorts e i ov h))) \<Longrightarrow> \<exists>k. ev = conflict_warning k"
  by (auto simp: exposedPorts_def Let_def split_beta split: option.splits if_splits
        dest: exposeCommsPorts_only_warnings)

lemma exposedPorts_warns:
  assumes "k = CmdPort i \<or> k = EvtPort i"
  shows "conflict_warning k \<in> set (snd (snd (exposedPorts e i ov h))) \<longleftrightarrow> k \<in> userPorts ov h"
proof -
  have d: "distinct (map fst (range_comms e (commsExposedPorts i)))"
    using commsExposedPorts_wf [of i] by (simp add: range_comms_distinct gomap_wf_def)
  have k: "k \<in> fst ` set (range_comms e (commsExposedPorts i))"
    using assms by (simp add: range_comms_keys commsExposedPorts_keys)
  show ?thesis
    using exposeCommsPorts_warns [OF d k]
    by (auto simp add: exposedPorts_def Let_def userPorts_def gomap_len_def split_beta
          split: option.splits)
qed

lemma exposedPorts_heap_other:
  "ExposedPorts ov \<noteq> Some b \<Longrightarrow> fst (snd (exposedPorts e i ov h)) b = h b"
  by (auto simp add: exposedPorts_def Let_def exposeCommsPorts_other split_beta
        split: option.splits)

lemma exposedPorts_heap_empty:
  "ExposedPorts ov = Some a \<Longrightarrow> h a = [] \<Longrightarrow> fst (snd (exposedPorts e i ov h)) = h"
  by (simp add: exposedPorts_def Let_def gomap_len_def)

lemma exposedPorts_heap_keys:
  "ExposedPorts ov = Some a \<Longrightarrow> h a \<noteq> [] \<Longrightarrow>
   fst ` set (fst (snd (exposedPorts e i ov h)) a) = fst ` set (h a) \<union> {CmdPort i, EvtPort i}"
  by (simp add: exposedPorts_def Let_def gomap_len_def exposeCommsPorts_keys range_comms_keys
        commsExposedPorts_keys split_beta)

lemma exposedPorts_ContainerName [simp]:
  "exposedPorts e (i\<lparr>ContainerName := n\<rparr>) ov h = exposedPorts e i ov h"
  by (simp add: exposedPorts_def commsExposedPorts_def)


subsection \<open>The launch part\<close>

lemmas result_defs = outcome_of_def inspector_of_def heap_of_def events_of_def

lemma launch_None:
  "Overrides i = None \<Longrightarrow>
   launch e i h =
     (Panicked NilDereference,
      i\<lparr>ContainerName := ContainerNamePat (showNat (Getpid e)) (Now e)\<rparr>, h, [])"
  by (simp add: launch_def Let_def)

lemma launch_frame:
  "Overrides (inspector_of (launch e i h)) = Overrides i"
  "FatContainerCmd (inspector_of (launch e i h)) = FatContainerCmd i"
  "ExcludePaths (inspector_of (launch e i h)) = ExcludePaths i"
  "IncludePaths (inspector_of (launch e i h)) = IncludePaths i"
  "CmdPort (inspector_of (launch e i h)) = CmdPort i"
  "EvtPort (inspector_of (launch e i h)) = EvtPort i"
  by (simp_all add: launch_def Let_def split_beta result_defs split: option.splits sum.splits)

lemma launch_heap:
  "Overrides i = Some ov \<Longrightarrow> heap_of (launch e i h) = fst (snd (exposedPorts e i ov h))"
  by (simp add: launch_def Let_def split_beta result_defs split: option.splits sum.splits)

lemma launch_events:
  "Overrides i = Some ov \<Longrightarrow>
   \<exists>rest. events_of (launch e i h) =
      snd (snd (exposedPorts e i ov h)) @ CreateContainer (launchSpec e i ov h) # rest"
  by (simp add: launch_def launchSpec_def Let_def split_beta result_defs
        split: option.splits sum.splits)

lemma launch_no_channel:
  "ev \<in> set (events_of (launch e i h)) \<Longrightarrow> \<not> is_channel_event ev"
  by (auto simp add: launch_def Let_def split_beta result_defs conflict_warning_def
        split: option.splits sum.splits dest!: exposedPorts_events)

lemma launch_inspect:
  assumes "InspectContainer cid \<in> set (events_of (launch e i h))"
  shows "last (events_of (launch e i h)) = InspectContainer cid"
    and "inspectContainer e cid = Inr info \<Longrightarrow> outcome_of (launch e i h) = Returned None"
    and "inspectContainer e cid = Inr info \<Longrightarrow>
         ContainerInfo (inspector_of (launch e i h)) = Some info"
  using assms
  by (auto simp add: launch_def Let_def split_beta result_defs conflict_warning_def
        split: option.splits sum.splits dest!: exposedPorts_events)

lemma launch_Returned_None:
  assumes "outcome_of (launch e i h) = Returned None"
  shows "\<exists>cid info. InspectContainer cid \<in> set (events_of (launch e i h)) \<and>
           inspectContainer e cid = Inr info \<and>
           ContainerInfo (inspector_of (launch e i h)) = Some info"
  using assms
  by (auto simp add: launch_def Let_def split_beta result_defs
        split: option.splits sum.splits)

subsection \<open>initContainerChannels\<close>

lemma initContainerChannels_panic:
  assumes "ContainerInfo i = Some info" and "NetworkSettings info = Some ns"
    and "no_binding ns (CmdPort i) \<or> no_binding ns (EvtPort i)"
  shows "initContainerChannels e i =
           (Panicked IndexOutOfRange, i\<lparr>DockerHostIP := getIP e\<rparr>, [GetIP])"
  using assms
  by (auto simp add: initContainerChannels_def Let_def no_binding_def
        split: option.splits list.splits)

lemma initContainerChannels_frame:
  "FatContainerCmd (fst (snd (initContainerChannels e i))) = FatContainerCmd i"
  "ExcludePaths (fst (snd (initContainerChannels e i))) = ExcludePaths i"
  "IncludePaths (fst (snd (initContainerChannels e i))) = IncludePaths i"
  "Overrides (fst (snd (initContainerChannels e i))) = Overrides i"
  "ContainerInfo (fst (snd (initContainerChannels e i))) = ContainerInfo i"
  by (simp_all add: initContainerChannels_def Let_def split: option.splits list.splits)

lemma initContainerChannels_events:
  "ev \<in> set (snd (snd (initContainerChannels e i))) \<Longrightarrow>
   ev = GetIP \<or> (\<exists>ip c v. ev = InitContainerChannels ip c v)"
  by (auto simp add: initContainerChannels_def Let_def split: option.splits list.splits)

subsection \<open>The start command\<close>

lemma startMonitorCmd_Inr:
  "startMonitorCmd i = Inr cmd \<Longrightarrow>
   FatContainerCmd i = AppName cmd # AppArgs cmd \<and>
   Excludes cmd = map fst (ExcludePaths i) \<and> Includes cmd = map fst (IncludePaths i)"
  by (cases "FatContainerCmd i"; cases "ExcludePaths i"; cases "IncludePaths i")
     (auto simp add: startMonitorCmd_def Let_def gomap_len_def pathMapKeys_eq
        split: list.splits)

lemma startMonitorCmd_Inl:
  "startMonitorCmd i = Inl p \<longleftrightarrow> FatContainerCmd i = [] \<and> p = IndexOutOfRange"
  by (auto simp add: startMonitorCmd_def Let_def split: list.splits)

lemma sendStartMonitor_events:
  "ev \<in> set (snd (sendStartMonitor e i)) \<Longrightarrow>
   \<exists>cmd. startMonitorCmd i = Inr cmd \<and> ev = SendContainerCmd (CmdStartMonitor cmd)"
  by (auto simp add: sendStartMonitor_def split: sum.splits)

lemma sendStartMonitor_Returned:
  "fst (sendStartMonitor e i) = Returned r \<Longrightarrow>
   \<exists>cmd. startMonitorCmd i = Inr cmd \<and>
     snd (sendStartMonitor e i) = [SendContainerCmd (CmdStartMonitor cmd)]"
  by (auto simp add: sendStartMonitor_def split: sum.splits)

subsection \<open>RunContainer\<close>

lemma RunContainer_unfold:
  "RunContainer e i h =
     (if outcome_of (launch e i h) \<noteq> Returned None then launch e i h
      else if checkNetworkSettings (inspector_of (launch e i h)) \<noteq> Returned None
      then (checkNetworkSettings (inspector_of (launch e i h)),
            inspector_of (launch e i h), heap_of (launch e i h), events_of (launch e i h))
      else if fst (initContainerChannels e (inspector_of (launch e i h))) \<noteq> Returned None
      then (fst (initContainerChannels e (inspector_of (launch e i h))),
            fst (snd (initContainerChannels e (inspector_of (launch e i h)))),
            heap_of (launch e i h),
            events_of (launch e i h) @
            snd (snd (initContainerChannels e (inspector_of (launch e i h)))))
      else (fst (sendStartMonitor e
                   (fst (snd (initContainerChannels e (inspector_of (launch e i h)))))),
            fst (snd (initContainerChannels e (inspector_of (launch e i h)))),
            heap_of (launch e i h),
            events_of (launch e i h) @
            snd (snd (initContainerChannels e (inspector_of (launch e i h)))) @
            snd (sendStartMonitor e
                   (fst (snd (initContainerChannels e (inspector_of (launch e i h))))))))"
  by (simp add: RunContainer_def Let_def split_beta result_defs)

lemma RunContainer_heap: "heap_of (RunContainer e i h) = heap_of (launch e i h)"
  by (simp add: RunContainer_unfold) (simp add: result_defs)

lemma RunContainer_Overrides:
  "Overrides (inspector_of (RunContainer e i h)) = Overrides i"
  using launch_frame(1) [of e i h]
    initContainerChannels_frame(4) [of e "inspector_of (launch e i h)"]
  by (simp add: RunContainer_unfold) (simp add: result_defs)


lemma initContainerChannels_channel:
  "ev \<in> set (snd (snd (initContainerChannels e i))) \<Longrightarrow> is_channel_event ev"
  by (auto dest: initContainerChannels_events)

lemma sendStartMonitor_channel:
  "ev \<in> set (snd (sendStartMonitor e i)) \<Longrightarrow> is_channel_event ev"
  by (auto dest: sendStartMonitor_events)

lemma RunContainer_events_launch:
  "\<exists>more. events_of (RunContainer e i h) = events_of (launch e i h) @ more \<and>
     (\<forall>ev \<in> set more. is_channel_event ev) \<and>
     (more \<noteq> [] \<longrightarrow> outcome_of (launch e i h) = Returned None \<and>
        checkNetworkSettings (inspector_of (launch e i h)) = Returned None)"
  by (simp add: RunContainer_unfold)
     (auto simp add: result_defs dest: initContainerChannels_channel sendStartMonitor_channel)

lemma startMonitorCmd_cong:
  "FatContainerCmd j = FatContainerCmd i \<Longrightarrow> ExcludePaths j = ExcludePaths i \<Longrightarrow>
   IncludePaths j = IncludePaths i \<Longrightarrow> startMonitorCmd j = startMonitorCmd i"
  by (simp add: startMonitorCmd_def Let_def split: list.splits)

lemma RunContainer_sent:
  assumes "SendContainerCmd c \<in> set (events_of (RunContainer e i h))"
  shows "\<exists>cmd. startMonitorCmd i = Inr cmd \<and> c = CmdStartMonitor cmd"
proof -
  let ?L = "launch e i h"
  let ?C = "initContainerChannels e (inspector_of ?L)"
  let ?j = "fst (snd ?C)"
  have nl: "SendContainerCmd c \<notin> set (events_of ?L)"
    using launch_no_channel [of "SendContainerCmd c" e i h] by auto
  have nc: "SendContainerCmd c \<notin> set (snd (snd ?C))"
    using initContainerChannels_events [of "SendContainerCmd c" e "inspector_of ?L"] by auto
  from assms nl nc have "SendContainerCmd c \<in> set (snd (sendStartMonitor e ?j))"
    by (simp add: RunContainer_unfold split: if_splits) (simp_all add: result_defs)
  then obtain cmd where c: "startMonitorCmd ?j = Inr cmd" "c = CmdStartMonitor cmd"
    using sendStartMonitor_events by blast
  have "startMonitorCmd ?j = startMonitorCmd i"
    by (rule startMonitorCmd_cong) (simp_all add: initContainerChannels_frame launch_frame)
  with c show ?thesis by simp
qed

lemma RunContainer_Returned_None:
  assumes "outcome_of (RunContainer e i h) = Returned None"
  shows "\<exists>cmd. startMonitorCmd i = Inr cmd \<and>
           last (events_of (RunContainer e i h)) = SendContainerCmd (CmdStartMonitor cmd)"
proof -
  let ?L = "launch e i h"
  let ?C = "initContainerChannels e (inspector_of ?L)"
  let ?j = "fst (snd ?C)"
  from assms have r: "fst (sendStartMonitor e ?j) = Returned None"
    and ev: "events_of (RunContainer e i h) =
             events_of ?L @ snd (snd ?C) @ snd (sendStartMonitor e ?j)"
    by (simp_all add: RunContainer_unfold split: if_splits) (simp_all add: result_defs)
  from sendStartMonitor_Returned [OF r] obtain cmd where
    c: "startMonitorCmd ?j = Inr cmd"
       "snd (sendStartMonitor e ?j) = [SendContainerCmd (CmdStartMonitor cmd)]"
    by blast
  have "startMonitorCmd ?j = startMonitorCmd i"
    by (rule startMonitorCmd_cong) (simp_all add: initContainerChannels_frame launch_frame)
  with c ev show ?thesis by simp
qed

lemma checkNetworkSettings_Exited:
  assumes "ContainerInfo i = Some info"
    and "NetworkSettings info = None \<or>
         (\<exists>ns. NetworkSettings info = Some ns \<and>
            gomap_len (Ports ns) < gomap_len (commsExposedPorts i))"
  shows "\<exists>msg. checkNetworkSettings i = Exited msg"
  using assms by (auto simp add: checkNetworkSettings_def FailWhen_def)

lemma checkNetworkSettings_Returned:
  assumes "checkNetworkSettings i = Returned None"
  shows "\<exists>info ns. ContainerInfo i = Some info \<and> NetworkSettings info = Some ns \<and>
           gomap_len (commsExposedPorts i) \<le> gomap_len (Ports ns)"
  using assms
  by (auto simp add: checkNetworkSettings_def FailWhen_def split: option.splits if_splits)

lemma checkNetworkSettings_pass:
  assumes "ContainerInfo i = Some info" "NetworkSettings info = Some ns"
    "gomap_len (commsExposedPorts i) \<le> gomap_len (Ports ns)"
  shows "checkNetworkSettings i = Returned None"
  using assms by (simp add: checkNetworkSettings_def FailWhen_def)



subsection \<open>Runs of RunContainer\<close>

lemmas run_defs = RunContainer_def launch_def launchSpec_def exposedPorts_def Let_def
  checkNetworkSettings_def FailWhen_def initContainerChannels_def sendStartMonitor_def
  startMonitorCmd_def pathMapKeys_def gomap_len_def gomap_get_def commsExposedPorts_def
  range_comms_def err_of_def outcome_of_def inspector_of_def heap_of_def events_of_def
  ex_env_def ex_container_def ex_ports_def ex_inspector_def ex_overrides_def ex_heap_def
  ex_image_def NewInspector_def CmdPortDefault_def EvtPortDefault_def

lemma launchSpec_ports:
  "cfg_ExposedPorts (Config (launchSpec e i ov h)) = fst (exposedPorts e i ov h)"
  by (simp add: launchSpec_def containerOptions_def)

lemma RunContainer_events_create:
  assumes "Overrides i = Some ov"
  shows "\<exists>rest. events_of (RunContainer e i h) =
           snd (snd (exposedPorts e i ov h)) @ CreateContainer (launchSpec e i ov h) # rest"
proof -
  from launch_events [OF assms] obtain rest where
    "events_of (launch e i h) =
       snd (snd (exposedPorts e i ov h)) @ CreateContainer (launchSpec e i ov h) # rest"
    by blast
  moreover from RunContainer_events_launch obtain more where
    "events_of (RunContainer e i h) = events_of (launch e i h) @ more"
    by blast
  ultimately show ?thesis by simp
qed

lemma launch_heap_None: "Overrides i = None \<Longrightarrow> heap_of (launch e i h) = h"
  by (simp add: launch_None heap_of_def)

text \<open>
  C3. For every overrides value that \<open>RunContainer\<close> can read (a nil pointer is the
  subject of C10), the launch specification passed to the create call exposes the
  reserved ports 65501/tcp and 65502/tcp, each with the reserved (empty) binding; its
  keys are the user's keys and the two reserved ones, one entry per key; a user key that
  equals a reserved key is reported by a warning line, and by nothing else: the only
  events before the create call are such warnings, and the create call follows them.
\<close>

theorem RunContainer_exposed_ports:
  assumes "Overrides i = Some ov"
    and "CmdPort i = CmdPortDefault" and "EvtPort i = EvtPortDefault"
    and "userPorts_wf ov h"
  shows "\<exists>warns opts rest.
           events_of (RunContainer e i h) = warns @ CreateContainer opts # rest
         \<and> (\<forall>ev \<in> set warns. \<exists>k. ev = conflict_warning k)
         \<and> gomap_get (cfg_ExposedPorts (Config opts)) ''65501/tcp'' = Some ()
         \<and> gomap_get (cfg_ExposedPorts (Config opts)) ''65502/tcp'' = Some ()
         \<and> fst ` set (cfg_ExposedPorts (Config opts)) =
             userPorts ov h \<union> {''65501/tcp'', ''65502/tcp''}
         \<and> distinct (map fst (cfg_ExposedPorts (Config opts)))
         \<and> (\<forall>k \<in> {''65501/tcp'', ''65502/tcp''}.
               conflict_warning k \<in> set warns \<longleftrightarrow> k \<in> userPorts ov h)"
proof -
  let ?warns = "snd (snd (exposedPorts e i ov h))"
  let ?opts = "launchSpec e i ov h"
  from RunContainer_events_create [OF assms(1)] obtain rest where
    ev: "events_of (RunContainer e i h) = ?warns @ CreateContainer ?opts # rest"
    by blast
  have keys: "fst ` set (cfg_ExposedPorts (Config ?opts)) =
                userPorts ov h \<union> {''65501/tcp'', ''65502/tcp''}"
    using assms(2,3)
    by (simp add: launchSpec_ports exposedPorts_keys CmdPortDefault_def EvtPortDefault_def)
  have w: "\<forall>ev \<in> set ?warns. \<exists>k. ev = conflict_warning k"
    using exposedPorts_events by blast
  have c: "gomap_get (cfg_ExposedPorts (Config ?opts)) ''65501/tcp'' = Some ()"
    by (simp add: gomap_get_unit keys)
  have v: "gomap_get (cfg_ExposedPorts (Config ?opts)) ''65502/tcp'' = Some ()"
    by (simp add: gomap_get_unit keys)
  have d: "distinct (map fst (cfg_ExposedPorts (Config ?opts)))"
    using exposedPorts_wf [OF assms(4), of e i] by (simp add: launchSpec_ports gomap_wf_def)
  have cw: "\<forall>k \<in> {''65501/tcp'', ''65502/tcp''}.
               conflict_warning k \<in> set ?warns \<longleftrightarrow> k \<in> userPorts ov h"
    using assms(2,3) exposedPorts_warns [of _ i e ov h]
    by (simp add: CmdPortDefault_def EvtPortDefault_def)
  from ev w c v keys d cw show ?thesis by blast
qed

theorem RunContainer_exposed_ports_witness:
  "Overrides (ex_inspector (Some (ex_overrides (Some 7)))) = Some (ex_overrides (Some 7))
   \<and> CmdPort (ex_inspector (Some (ex_overrides (Some 7)))) = CmdPortDefault
   \<and> EvtPort (ex_inspector (Some (ex_overrides (Some 7)))) = EvtPortDefault
   \<and> userPorts_wf (ex_overrides (Some 7)) ex_heap
   \<and> userPorts (ex_overrides (Some 7)) ex_heap = {''8080/tcp'', ''65502/tcp''}
   \<and> (\<exists>warns opts rest.
         events_of (RunContainer (ex_env (ex_container ex_ports))
                      (ex_inspector (Some (ex_overrides (Some 7)))) ex_heap) =
           warns @ CreateContainer opts # rest
       \<and> fst ` set (cfg_ExposedPorts (Config opts)) =
           {''8080/tcp'', ''65501/tcp'', ''65502/tcp''}
       \<and> distinct (map fst (cfg_ExposedPorts (Config opts)))
       \<and> conflict_warning ''65502/tcp'' \<in> set warns
       \<and> conflict_warning ''65501/tcp'' \<notin> set warns)"
proof -
  have a: "Overrides (ex_inspector (Some (ex_overrides (Some 7)))) = Some (ex_overrides (Some 7))"
    and b: "CmdPort (ex_inspector (Some (ex_overrides (Some 7)))) = CmdPortDefault"
    and c: "EvtPort (ex_inspector (Some (ex_overrides (Some 7)))) = EvtPortDefault"
    by (simp_all add: ex_inspector_def NewInspector_fields)
  have d: "userPorts_wf (ex_overrides (Some 7)) ex_heap"
    by (simp add: userPorts_wf_def ex_overrides_def ex_heap_def gomap_wf_def)
  have u: "userPorts (ex_overrides (Some 7)) ex_heap = {''8080/tcp'', ''65502/tcp''}"
    by (simp add: userPorts_def ex_overrides_def ex_heap_def)
  have k: "userPorts (ex_overrides (Some 7)) ex_heap \<union> {''65501/tcp'', ''65502/tcp''} =
           {''8080/tcp'', ''65501/tcp'', ''65502/tcp''}"
    unfolding u by auto
  have m1: "''65502/tcp'' \<in> userPorts (ex_overrides (Some 7)) ex_heap"
    and m2: "''65501/tcp'' \<notin> userPorts (ex_overrides (Some 7)) ex_heap"
    by (simp_all add: u)
  from RunContainer_exposed_ports [OF a b c d, of "ex_env (ex_container ex_ports)", unfolded k]
  obtain warns opts rest where
    H: "events_of (RunContainer (ex_env (ex_container ex_ports))
                      (ex_inspector (Some (ex_overrides (Some 7)))) ex_heap) =
           warns @ CreateContainer opts # rest
        \<and> (\<forall>ev \<in> set warns. \<exists>k. ev = conflict_warning k)
        \<and> gomap_get (cfg_ExposedPorts (Config opts)) ''65501/tcp'' = Some ()
        \<and> gomap_get (cfg_ExposedPorts (Config opts)) ''65502/tcp'' = Some ()
        \<and> fst ` set (cfg_ExposedPorts (Config opts)) =
            {''8080/tcp'', ''65501/tcp'', ''65502/tcp''}
        \<and> distinct (map fst (cfg_ExposedPorts (Config opts)))
        \<and> (\<forall>k \<in> {''65501/tcp'', ''65502/tcp''}.
              conflict_warning k \<in> set warns \<longleftrightarrow>
              k \<in> userPorts (ex_overrides (Some 7)) ex_heap)"
    by (elim exE) (rule that)
  from H have ev: "events_of (RunContainer (ex_env (ex_container ex_ports))
                      (ex_inspector (Some (ex_overrides (Some 7)))) ex_heap) =
           warns @ CreateContainer opts # rest"
    by (elim conjE)
  from H have ks: "fst ` set (cfg_ExposedPorts (Config opts)) =
            {''8080/tcp'', ''65501/tcp'', ''65502/tcp''}"
    by (elim conjE)
  from H have di: "distinct (map fst (cfg_ExposedPorts (Config opts)))"
    by (elim conjE)
  from H have cw: "\<forall>k \<in> {''65501/tcp'', ''65502/tcp''}.
              conflict_warning k \<in> set warns \<longleftrightarrow>
              k \<in> userPorts (ex_overrides (Some 7)) ex_heap"
    by (elim conjE)
  have w1: "conflict_warning ''65502/tcp'' \<in> set warns"
    using cw [rule_format, of "''65502/tcp''"] m1 by simp
  have w2: "conflict_warning ''65501/tcp'' \<notin> set warns"
    using cw [rule_format, of "''65501/tcp''"] m2 by simp
  have E: "\<exists>warns opts rest.
         events_of (RunContainer (ex_env (ex_container ex_ports))
                      (ex_inspector (Some (ex_overrides (Some 7)))) ex_heap) =
           warns @ CreateContainer opts # rest
       \<and> fst ` set (cfg_ExposedPorts (Config opts)) =
           {''8080/tcp'', ''65501/tcp'', ''65502/tcp''}
       \<and> distinct (map fst (cfg_ExposedPorts (Config opts)))
       \<and> conflict_warning ''65502/tcp'' \<in> set warns
       \<and> conflict_warning ''65501/tcp'' \<notin> set warns"
    by (intro exI [of _ warns] exI [of _ opts] exI [of _ rest] conjI ev ks di w1 w2)
  show ?thesis by (intro conjI a b c d u E)
qed

text \<open>
  C5. When the inspect call has returned a container state that has no network
  settings, or whose port map has fewer entries than the two reserved ports, the run
  ends in a fatal failure, the inspect call is its last event, and no event of the run
  opens or uses a channel. Conversely a run with a channel event has inspected a state
  with network settings and at least two entries in its port map.
\<close>

theorem RunContainer_fails_before_channels:
  assumes "CmdPort i \<noteq> EvtPort i"
  shows "(InspectContainer cid \<in> set (events_of (RunContainer e i h))
          \<and> inspectContainer e cid = Inr info
          \<and> (NetworkSettings info = None
             \<or> (\<exists>ns. NetworkSettings info = Some ns \<and> gomap_len (Ports ns) < 2))
          \<longrightarrow> (\<exists>msg. outcome_of (RunContainer e i h) = Exited msg)
              \<and> last (events_of (RunContainer e i h)) = InspectContainer cid
              \<and> (\<forall>ev \<in> set (events_of (RunContainer e i h)). \<not> is_channel_event ev))
       \<and> ((\<exists>ev \<in> set (events_of (RunContainer e i h)). is_channel_event ev)
          \<longrightarrow> (\<exists>cid info ns.
                 InspectContainer cid \<in> set (events_of (RunContainer e i h))
               \<and> inspectContainer e cid = Inr info
               \<and> NetworkSettings info = Some ns
               \<and> 2 \<le> gomap_len (Ports ns)))"
proof -
  let ?L = "launch e i h"
  let ?R = "RunContainer e i h"
  obtain more where
    ev: "events_of ?R = events_of ?L @ more"
    and ch: "\<forall>ev \<in> set more. is_channel_event ev"
    and ne: "more \<noteq> [] \<longrightarrow> outcome_of ?L = Returned None \<and>
               checkNetworkSettings (inspector_of ?L) = Returned None"
    using RunContainer_events_launch [of e i h] by blast
  have len: "gomap_len (commsExposedPorts (inspector_of ?L)) = 2"
    using assms by (simp add: commsExposedPorts_len launch_frame)
  have part1: "(\<exists>msg. outcome_of ?R = Exited msg)
              \<and> last (events_of ?R) = InspectContainer cid
              \<and> (\<forall>ev \<in> set (events_of ?R). \<not> is_channel_event ev)"
    if i: "InspectContainer cid \<in> set (events_of ?R)"
      and r: "inspectContainer e cid = Inr info"
      and bad: "NetworkSettings info = None
                \<or> (\<exists>ns. NetworkSettings info = Some ns \<and> gomap_len (Ports ns) < 2)"
  proof -
    from i ev ch have il: "InspectContainer cid \<in> set (events_of ?L)" by auto
    note li = launch_inspect [OF il]
    from li(2) [OF r] have ok: "outcome_of ?L = Returned None" .
    from li(3) [OF r] have ci: "ContainerInfo (inspector_of ?L) = Some info" .
    from checkNetworkSettings_Exited [OF ci] bad len
    obtain msg where x: "checkNetworkSettings (inspector_of ?L) = Exited msg" by auto
    from ok x have R: "?R = (Exited msg, inspector_of ?L, heap_of ?L, events_of ?L)"
      by (simp add: RunContainer_unfold)
    have "outcome_of ?R = Exited msg" by (simp add: R outcome_of_def)
    moreover have e2: "events_of ?R = events_of ?L" by (simp add: R events_of_def)
    moreover have "last (events_of ?L) = InspectContainer cid" by (rule li(1))
    moreover have "\<forall>ev \<in> set (events_of ?L). \<not> is_channel_event ev"
      using launch_no_channel by blast
    ultimately show ?thesis by simp
  qed
  have part2: "\<exists>cid info ns.
                 InspectContainer cid \<in> set (events_of ?R)
               \<and> inspectContainer e cid = Inr info
               \<and> NetworkSettings info = Some ns
               \<and> 2 \<le> gomap_len (Ports ns)"
    if c: "\<exists>ev \<in> set (events_of ?R). is_channel_event ev"
  proof -
    from c ev launch_no_channel [of _ e i h] have "more \<noteq> []" by auto
    with ne have ok: "outcome_of ?L = Returned None"
      and pass: "checkNetworkSettings (inspector_of ?L) = Returned None" by simp_all
    from launch_Returned_None [OF ok] obtain cid info where
      a: "InspectContainer cid \<in> set (events_of ?L)" "inspectContainer e cid = Inr info"
         "ContainerInfo (inspector_of ?L) = Some info" by blast
    from checkNetworkSettings_Returned [OF pass] a(3) len obtain ns where
      "NetworkSettings info = Some ns" "2 \<le> gomap_len (Ports ns)" by auto
    with a ev show ?thesis by auto
  qed
  from part1 part2 show ?thesis by blast
qed

theorem RunContainer_fails_before_channels_witness:
  "CmdPort (ex_inspector (Some (ex_overrides None))) \<noteq>
     EvtPort (ex_inspector (Some (ex_overrides None)))
   \<and> InspectContainer ''c0ffee'' \<in> set (events_of
        (RunContainer (ex_env (ex_container [(''80/tcp'', [])]))
           (ex_inspector (Some (ex_overrides None))) ex_heap))
   \<and> inspectContainer (ex_env (ex_container [(''80/tcp'', [])])) ''c0ffee'' =
        Inr (ex_container [(''80/tcp'', [])])
   \<and> NetworkSettings (ex_container [(''80/tcp'', [])]) = Some \<lparr>Ports = [(''80/tcp'', [])]\<rparr>
   \<and> gomap_len (Ports \<lparr>Ports = [(''80/tcp'', [])]\<rparr>) < 2
   \<and> ((\<exists>msg. outcome_of
        (RunContainer (ex_env (ex_container [(''80/tcp'', [])]))
           (ex_inspector (Some (ex_overrides None))) ex_heap) = Exited msg)
      \<and> last (events_of
        (RunContainer (ex_env (ex_container [(''80/tcp'', [])]))
           (ex_inspector (Some (ex_overrides None))) ex_heap)) = InspectContainer ''c0ffee''
      \<and> filter is_channel_event (events_of
        (RunContainer (ex_env (ex_container [(''80/tcp'', [])]))
           (ex_inspector (Some (ex_overrides None))) ex_heap)) = [])
   \<and> (\<exists>ev \<in> set (events_of
        (RunContainer (ex_env (ex_container ex_ports))
           (ex_inspector (Some (ex_overrides None))) ex_heap)). is_channel_event ev)
   \<and> (\<exists>cid info ns.
         InspectContainer cid \<in> set (events_of
           (RunContainer (ex_env (ex_container ex_ports))
              (ex_inspector (Some (ex_overrides None))) ex_heap))
       \<and> inspectContainer (ex_env (ex_container ex_ports)) cid = Inr info
       \<and> NetworkSettings info = Some ns
       \<and> 2 \<le> gomap_len (Ports ns))"
proof -
  let ?i = "ex_inspector (Some (ex_overrides None))"
  let ?bad = "ex_env (ex_container [(''80/tcp'', [])])"
  let ?ok = "ex_env (ex_container ex_ports)"
  have p: "CmdPort ?i \<noteq> EvtPort ?i"
    by (simp add: ex_inspector_def NewInspector_fields CmdPortDefault_def EvtPortDefault_def)
  have a: "InspectContainer ''c0ffee'' \<in> set (events_of (RunContainer ?bad ?i ex_heap))"
    by (simp add: run_defs)
  have b: "inspectContainer ?bad ''c0ffee'' = Inr (ex_container [(''80/tcp'', [])])"
    by (simp add: ex_env_def)
  have c: "NetworkSettings (ex_container [(''80/tcp'', [])]) = Some \<lparr>Ports = [(''80/tcp'', [])]\<rparr>"
    by (simp add: ex_container_def)
  have d: "gomap_len (Ports \<lparr>Ports = [(''80/tcp'', [])]\<rparr>) < 2"
    by (simp add: gomap_len_def)
  have bad: "NetworkSettings (ex_container [(''80/tcp'', [])]) = None
             \<or> (\<exists>ns. NetworkSettings (ex_container [(''80/tcp'', [])]) = Some ns
                  \<and> gomap_len (Ports ns) < 2)"
    by (rule disjI2, rule exI [of _ "\<lparr>Ports = [(''80/tcp'', [])]\<rparr>"], rule conjI [OF c d])
  have g: "GetIP \<in> set (events_of (RunContainer ?ok ?i ex_heap))"
    by (simp add: run_defs)
  have g': "\<exists>ev \<in> set (events_of (RunContainer ?ok ?i ex_heap)). is_channel_event ev"
    by (rule bexI [OF _ g]) simp
  have 1: "(\<exists>msg. outcome_of (RunContainer ?bad ?i ex_heap) = Exited msg)
           \<and> last (events_of (RunContainer ?bad ?i ex_heap)) = InspectContainer ''c0ffee''
           \<and> (\<forall>ev \<in> set (events_of (RunContainer ?bad ?i ex_heap)). \<not> is_channel_event ev)"
    by (rule RunContainer_fails_before_channels
          [OF p, of "''c0ffee''" ?bad ex_heap "ex_container [(''80/tcp'', [])]",
           THEN conjunct1, THEN mp])
       (intro conjI a b bad)
  have 2: "\<exists>cid info ns.
         InspectContainer cid \<in> set (events_of (RunContainer ?ok ?i ex_heap))
       \<and> inspectContainer ?ok cid = Inr info
       \<and> NetworkSettings info = Some ns
       \<and> 2 \<le> gomap_len (Ports ns)"
    by (rule RunContainer_fails_before_channels
          [OF p, of "''c0ffee''" ?ok ex_heap "ex_container ex_ports",
           THEN conjunct2, THEN mp])
       (rule g')
  from 1 have x: "\<exists>msg. outcome_of (RunContainer ?bad ?i ex_heap) = Exited msg"
    by (elim conjE)
  from 1 have l: "last (events_of (RunContainer ?bad ?i ex_heap)) = InspectContainer ''c0ffee''"
    by (elim conjE)
  from 1 have "\<forall>ev \<in> set (events_of (RunContainer ?bad ?i ex_heap)). \<not> is_channel_event ev"
    by (elim conjE)
  then have n: "filter is_channel_event (events_of (RunContainer ?bad ?i ex_heap)) = []"
    by (simp only: filter_empty_conv) 
  show ?thesis by (intro conjI p a b c d x l n g' 2)
qed

text \<open>
  C9. When the inspected state has two or more entries in its port map, the check of
  line 246 passes whatever the keys are. If the command port or the event port has no
  host binding to read (it is not a key of the map, or its list is empty),
  \<open>initContainerChannels\<close> panics on the index, after fetching the host address and
  before the channel call; \<open>RunContainer\<close> ends with that panic, not with an error.
\<close>

theorem initContainerChannels_index_panic:
  assumes "InspectContainer cid \<in> set (events_of (RunContainer e i h))"
    and "inspectContainer e cid = Inr info"
    and "NetworkSettings info = Some ns"
    and "2 \<le> gomap_len (Ports ns)"
    and "no_binding ns (CmdPort i) \<or> no_binding ns (EvtPort i)"
  shows "outcome_of (RunContainer e i h) = Panicked IndexOutOfRange
       \<and> last (events_of (RunContainer e i h)) = GetIP
       \<and> fst (initContainerChannels e (inspector_of (launch e i h))) = Panicked IndexOutOfRange"
proof -
  let ?L = "launch e i h"
  let ?R = "RunContainer e i h"
  let ?j = "inspector_of ?L"
  obtain more where
    ev: "events_of ?R = events_of ?L @ more"
    and ch: "\<forall>ev \<in> set more. is_channel_event ev"
    using RunContainer_events_launch [of e i h] by blast
  from assms(1) ev ch have il: "InspectContainer cid \<in> set (events_of ?L)" by auto
  note li = launch_inspect [OF il]
  from li(2) [OF assms(2)] have ok: "outcome_of ?L = Returned None" .
  from li(3) [OF assms(2)] have ci: "ContainerInfo ?j = Some info" .
  have "gomap_len (commsExposedPorts ?j) \<le> 2" by (simp add: commsExposedPorts_len)
  with assms(4) have "gomap_len (commsExposedPorts ?j) \<le> gomap_len (Ports ns)" by simp
  from checkNetworkSettings_pass [OF ci assms(3) this]
  have pass: "checkNetworkSettings ?j = Returned None" .
  from assms(5) have "no_binding ns (CmdPort ?j) \<or> no_binding ns (EvtPort ?j)"
    by (simp add: launch_frame)
  from initContainerChannels_panic [OF ci assms(3) this]
  have p: "initContainerChannels e ?j =
             (Panicked IndexOutOfRange, ?j\<lparr>DockerHostIP := getIP e\<rparr>, [GetIP])" .
  from ok pass p
  have R: "?R = (Panicked IndexOutOfRange, ?j\<lparr>DockerHostIP := getIP e\<rparr>, heap_of ?L,
                 events_of ?L @ [GetIP])"
    by (simp add: RunContainer_unfold)
  show ?thesis by (simp add: R p outcome_of_def events_of_def)
qed

theorem initContainerChannels_index_panic_witness:
  "InspectContainer ''c0ffee'' \<in> set (events_of
      (RunContainer
         (ex_env (ex_container
            [(''80/tcp'', [\<lparr>HostIP = ''0.0.0.0'', HostPort = ''32768''\<rparr>]),
             (''443/tcp'', [\<lparr>HostIP = ''0.0.0.0'', HostPort = ''32769''\<rparr>])]))
         (ex_inspector (Some (ex_overrides None))) ex_heap))
   \<and> 2 \<le> gomap_len (Ports
        \<lparr>Ports = [(''80/tcp'', [\<lparr>HostIP = ''0.0.0.0'', HostPort = ''32768''\<rparr>]),
                  (''443/tcp'', [\<lparr>HostIP = ''0.0.0.0'', HostPort = ''32769''\<rparr>])]\<rparr>)
   \<and> no_binding
        \<lparr>Ports = [(''80/tcp'', [\<lparr>HostIP = ''0.0.0.0'', HostPort = ''32768''\<rparr>]),
                  (''443/tcp'', [\<lparr>HostIP = ''0.0.0.0'', HostPort = ''32769''\<rparr>])]\<rparr>
        (CmdPort (ex_inspector (Some (ex_overrides None))))
   \<and> outcome_of
      (RunContainer
         (ex_env (ex_container
            [(''80/tcp'', [\<lparr>HostIP = ''0.0.0.0'', HostPort = ''32768''\<rparr>]),
             (''443/tcp'', [\<lparr>HostIP = ''0.0.0.0'', HostPort = ''32769''\<rparr>])]))
         (ex_inspector (Some (ex_overrides None))) ex_heap) = Panicked IndexOutOfRange
   \<and> last (events_of
      (RunContainer
         (ex_env (ex_container
            [(''80/tcp'', [\<lparr>HostIP = ''0.0.0.0'', HostPort = ''32768''\<rparr>]),
             (''443/tcp'', [\<lparr>HostIP = ''0.0.0.0'', HostPort = ''32769''\<rparr>])]))
         (ex_inspector (Some (ex_overrides None))) ex_heap)) = GetIP"
proof -
  let ?ports = "[(''80/tcp'', [\<lparr>HostIP = ''0.0.0.0'', HostPort = ''32768''\<rparr>]),
                 (''443/tcp'', [\<lparr>HostIP = ''0.0.0.0'', HostPort = ''32769''\<rparr>])]"
  let ?e = "ex_env (ex_container ?ports)"
  let ?i = "ex_inspector (Some (ex_overrides None))"
  have a: "InspectContainer ''c0ffee'' \<in> set (events_of (RunContainer ?e ?i ex_heap))"
    by (simp add: run_defs)
  have b: "inspectContainer ?e ''c0ffee'' = Inr (ex_container ?ports)"
    by (simp add: ex_env_def)
  have c: "NetworkSettings (ex_container ?ports) = Some \<lparr>Ports = ?ports\<rparr>"
    by (simp add: ex_container_def)
  have d: "2 \<le> gomap_len (Ports \<lparr>Ports = ?ports\<rparr>)"
    by (simp add: gomap_len_def)
  have n: "no_binding \<lparr>Ports = ?ports\<rparr> (CmdPort ?i)"
    by (simp add: no_binding_def gomap_get_def ex_inspector_def NewInspector_fields
          CmdPortDefault_def)
  note T = initContainerChannels_index_panic [OF a b c d disjI1 [OF n]]
  show ?thesis
    by (intro conjI a d n T [THEN conjunct1] T [THEN conjunct2, THEN conjunct1])
qed

text \<open>
  C10. \<open>NewInspector\<close> accepts nil overrides and resolves the command from the image
  defaults; \<open>RunContainer\<close> on that inspector panics on the nil pointer before any
  call is made.
\<close>

theorem RunContainer_nil_overrides_panics:
  "Overrides (NewInspector ii lvp None ls eh ds dd sl vm ex inc dbg) = None
   \<and> FatContainerCmd (NewInspector ii lvp None ls eh ds dd sl vm ex inc dbg) =
       ImageEntrypoint ii @ ImageCmd ii
   \<and> outcome_of (RunContainer e (NewInspector ii lvp None ls eh ds dd sl vm ex inc dbg) h) =
       Panicked NilDereference
   \<and> events_of (RunContainer e (NewInspector ii lvp None ls eh ds dd sl vm ex inc dbg) h) = []"
proof -
  let ?i = "NewInspector ii lvp None ls eh ds dd sl vm ex inc dbg"
  have n: "Overrides ?i = None" by (simp add: NewInspector_fields)
  have f: "FatContainerCmd ?i = ImageEntrypoint ii @ ImageCmd ii"
    by (simp add: NewInspector_def Let_def)
  from launch_None [OF n, of e h]
  have "RunContainer e ?i h =
          (Panicked NilDereference,
           ?i\<lparr>ContainerName := ContainerNamePat (showNat (Getpid e)) (Now e)\<rparr>, h, [])"
    by (simp add: RunContainer_unfold outcome_of_def)
  with n f show ?thesis by (simp add: outcome_of_def events_of_def)
qed

theorem RunContainer_nil_overrides_panics_witness:
  "outcome_of (RunContainer (ex_env (ex_container ex_ports)) (ex_inspector None) ex_heap) =
     Panicked NilDereference
   \<and> events_of (RunContainer (ex_env (ex_container ex_ports)) (ex_inspector None) ex_heap) = []"
  using RunContainer_nil_overrides_panics
    [of ex_image "''/tmp/state''" "[]" "[]" "[]" "[]" False "[]"
        "[(''/var/log'', True), (''/tmp'', True)]" "[]" False
        "ex_env (ex_container ex_ports)" ex_heap]
  by (simp add: ex_inspector_def)

text \<open>
  C7. With a non-empty \<open>FatContainerCmd\<close>, every command that \<open>RunContainer\<close> sends is a
  start command whose \<open>AppName\<close> is the first token and whose \<open>AppArgs\<close> are the
  remaining tokens (none when there is exactly one token); and a run that returns nil
  has sent such a command as its last event.
\<close>

theorem RunContainer_StartMonitor_app:
  assumes "FatContainerCmd i \<noteq> []"
  shows "(SendContainerCmd c \<in> set (events_of (RunContainer e i h)) \<longrightarrow>
            (\<exists>cmd. c = CmdStartMonitor cmd
               \<and> AppName cmd = hd (FatContainerCmd i)
               \<and> AppArgs cmd = tl (FatContainerCmd i)
               \<and> (length (FatContainerCmd i) = 1 \<longrightarrow> AppArgs cmd = [])))
       \<and> (outcome_of (RunContainer e i h) = Returned None \<longrightarrow>
            (\<exists>cmd. last (events_of (RunContainer e i h)) = SendContainerCmd (CmdStartMonitor cmd)))"
proof -
  have "\<exists>cmd. c = CmdStartMonitor cmd
               \<and> AppName cmd = hd (FatContainerCmd i)
               \<and> AppArgs cmd = tl (FatContainerCmd i)
               \<and> (length (FatContainerCmd i) = 1 \<longrightarrow> AppArgs cmd = [])"
    if "SendContainerCmd c \<in> set (events_of (RunContainer e i h))"
  proof -
    from RunContainer_sent [OF that] obtain cmd where
      c: "startMonitorCmd i = Inr cmd" "c = CmdStartMonitor cmd" by blast
    from startMonitorCmd_Inr [OF c(1)] have "FatContainerCmd i = AppName cmd # AppArgs cmd"
      by simp
    with c(2) show ?thesis by auto
  qed
  moreover have "\<exists>cmd. last (events_of (RunContainer e i h)) =
                   SendContainerCmd (CmdStartMonitor cmd)"
    if "outcome_of (RunContainer e i h) = Returned None"
    using RunContainer_Returned_None [OF that] by blast
  ultimately show ?thesis by blast
qed

theorem RunContainer_StartMonitor_app_witness:
  "FatContainerCmd (ex_inspector (Some (ex_overrides None))) = [''/bin/app'', ''--flag'']
   \<and> SendContainerCmd (CmdStartMonitor
         \<lparr>AppName = ''/bin/app'', AppArgs = [''--flag''],
          Excludes = [''/var/log'', ''/tmp''], Includes = []\<rparr>)
       \<in> set (events_of (RunContainer (ex_env (ex_container ex_ports))
                 (ex_inspector (Some (ex_overrides None))) ex_heap))
   \<and> (\<exists>cmd. CmdStartMonitor
               \<lparr>AppName = ''/bin/app'', AppArgs = [''--flag''],
                Excludes = [''/var/log'', ''/tmp''], Includes = []\<rparr> = CmdStartMonitor cmd
          \<and> AppName cmd = hd (FatContainerCmd (ex_inspector (Some (ex_overrides None))))
          \<and> AppArgs cmd = tl (FatContainerCmd (ex_inspector (Some (ex_overrides None))))
          \<and> (length (FatContainerCmd (ex_inspector (Some (ex_overrides None)))) = 1 \<longrightarrow>
               AppArgs cmd = []))"
proof -
  let ?i = "ex_inspector (Some (ex_overrides None))"
  let ?e = "ex_env (ex_container ex_ports)"
  have f: "FatContainerCmd ?i = [''/bin/app'', ''--flag'']"
    by (simp add: ex_inspector_def ex_image_def ex_overrides_def NewInspector_def Let_def)
  then have ne: "FatContainerCmd ?i \<noteq> []" by simp
  have m: "SendContainerCmd (CmdStartMonitor
         \<lparr>AppName = ''/bin/app'', AppArgs = [''--flag''],
          Excludes = [''/var/log'', ''/tmp''], Includes = []\<rparr>)
       \<in> set (events_of (RunContainer ?e ?i ex_heap))"
    by (simp add: run_defs)
  note T = RunContainer_StartMonitor_app [OF ne, THEN conjunct1, THEN mp, OF m]
  show ?thesis by (intro conjI f m T)
qed

text \<open>
  C4, as stated, fails: \<open>pathMapKeys\<close> does not sort. In the run that visits the
  exclude-path set \<open>{/tmp, /var/log}\<close> in the order \<open>/var/log\<close>, \<open>/tmp\<close>, the start command
  carries the keys in that order, which is not the sorted one.
\<close>

theorem RunContainer_Excludes_order_counterexample:
  "map fst (ExcludePaths (ex_inspector (Some (ex_overrides None)))) = [''/var/log'', ''/tmp'']
   \<and> sort [''/var/log'', ''/tmp''] = [''/tmp'', ''/var/log'']
   \<and> SendContainerCmd (CmdStartMonitor
         \<lparr>AppName = ''/bin/app'', AppArgs = [''--flag''],
          Excludes = [''/var/log'', ''/tmp''], Includes = []\<rparr>)
       \<in> set (events_of (RunContainer (ex_env (ex_container ex_ports))
                 (ex_inspector (Some (ex_overrides None))) ex_heap))
   \<and> \<not> sorted [''/var/log'', ''/tmp'']"
proof -
  have a: "map fst (ExcludePaths (ex_inspector (Some (ex_overrides None)))) =
             [''/var/log'', ''/tmp'']"
    by (simp add: ex_inspector_def NewInspector_fields)
  have b: "sort [''/var/log'', ''/tmp''] = [''/tmp'', ''/var/log'']"
    by code_simp
  have c: "SendContainerCmd (CmdStartMonitor
         \<lparr>AppName = ''/bin/app'', AppArgs = [''--flag''],
          Excludes = [''/var/log'', ''/tmp''], Includes = []\<rparr>)
       \<in> set (events_of (RunContainer (ex_env (ex_container ex_ports))
                 (ex_inspector (Some (ex_overrides None))) ex_heap))"
    by (simp add: run_defs)
  have d: "\<not> sorted [''/var/log'', ''/tmp'']"
    by code_simp
  show ?thesis by (intro conjI a b c d)
qed

text \<open>
  C4, amended. For every non-empty exclude-path set, the \<open>Excludes\<close> field of the start
  command sent by \<open>RunContainer\<close> holds exactly the keys of the set, each once, in the
  order in which the loop of \<open>pathMapKeys\<close> visited them; \<open>Includes\<close> is empty when the
  include-path set is empty.
\<close>

theorem RunContainer_StartMonitor_paths:
  assumes "ExcludePaths i \<noteq> []" and "gomap_wf (ExcludePaths i)"
    and "SendContainerCmd (CmdStartMonitor cmd) \<in> set (events_of (RunContainer e i h))"
  shows "Excludes cmd = map fst (ExcludePaths i)
       \<and> set (Excludes cmd) = fst ` set (ExcludePaths i)
       \<and> distinct (Excludes cmd)
       \<and> length (Excludes cmd) = gomap_len (ExcludePaths i)
       \<and> (IncludePaths i = [] \<longrightarrow> Includes cmd = [])"
proof -
  from RunContainer_sent [OF assms(3)] have "startMonitorCmd i = Inr cmd" by auto
  from startMonitorCmd_Inr [OF this] assms(2) show ?thesis
    by (auto simp add: gomap_wf_def gomap_len_def)
qed

theorem RunContainer_StartMonitor_paths_witness:
  "ExcludePaths (ex_inspector (Some (ex_overrides None))) \<noteq> []
   \<and> gomap_wf (ExcludePaths (ex_inspector (Some (ex_overrides None))))
   \<and> IncludePaths (ex_inspector (Some (ex_overrides None))) = []
   \<and> SendContainerCmd (CmdStartMonitor
         \<lparr>AppName = ''/bin/app'', AppArgs = [''--flag''],
          Excludes = [''/var/log'', ''/tmp''], Includes = []\<rparr>)
       \<in> set (events_of (RunContainer (ex_env (ex_container ex_ports))
                 (ex_inspector (Some (ex_overrides None))) ex_heap))
   \<and> Excludes \<lparr>AppName = ''/bin/app'', AppArgs = [''--flag''],
          Excludes = [''/var/log'', ''/tmp''], Includes = []\<rparr> =
       map fst (ExcludePaths (ex_inspector (Some (ex_overrides None))))
   \<and> distinct (Excludes \<lparr>AppName = ''/bin/app'', AppArgs = [''--flag''],
          Excludes = [''/var/log'', ''/tmp''], Includes = []\<rparr>)"
proof -
  let ?i = "ex_inspector (Some (ex_overrides None))"
  let ?e = "ex_env (ex_container ex_ports)"
  let ?cmd = "\<lparr>AppName = ''/bin/app'', AppArgs = [''--flag''],
          Excludes = [''/var/log'', ''/tmp''], Includes = []\<rparr>"
  have x: "ExcludePaths ?i = [(''/var/log'', True), (''/tmp'', True)]"
    and y: "IncludePaths ?i = []"
    by (simp_all add: ex_inspector_def NewInspector_fields)
  have ne: "ExcludePaths ?i \<noteq> []" by (simp add: x)
  have wf: "gomap_wf (ExcludePaths ?i)" by (simp add: x gomap_wf_def)
  have m: "SendContainerCmd (CmdStartMonitor ?cmd) \<in> set (events_of (RunContainer ?e ?i ex_heap))"
    by (simp add: run_defs)
  note T = RunContainer_StartMonitor_paths [OF ne wf m]
  show ?thesis
    by (intro conjI ne wf y m T [THEN conjunct1]
          T [THEN conjunct2, THEN conjunct2, THEN conjunct1])
qed

text \<open>
  C8, as stated, fails: the launch configuration's port map is the user's map object,
  and the loop of lines 189-195 writes the reserved ports into it. Here the user's map
  holds 8080/tcp and 65502/tcp before the run and 65501/tcp as well after it.
\<close>

theorem RunContainer_mutates_ExposedPorts_counterexample:
  "Overrides (ex_inspector (Some (ex_overrides (Some 7)))) = Some (ex_overrides (Some 7))
   \<and> ExposedPorts (ex_overrides (Some 7)) = Some 7
   \<and> ex_heap 7 = [(''8080/tcp'', ()), (''65502/tcp'', ())]
   \<and> heap_of (RunContainer (ex_env (ex_container ex_ports))
        (ex_inspector (Some (ex_overrides (Some 7)))) ex_heap) 7 =
       [(''8080/tcp'', ()), (''65502/tcp'', ()), (''65501/tcp'', ())]
   \<and> heap_of (RunContainer (ex_env (ex_container ex_ports))
        (ex_inspector (Some (ex_overrides (Some 7)))) ex_heap) 7 \<noteq> ex_heap 7"
proof -
  have a: "Overrides (ex_inspector (Some (ex_overrides (Some 7)))) =
             Some (ex_overrides (Some 7))"
    by (simp add: ex_inspector_def NewInspector_fields)
  have b: "ExposedPorts (ex_overrides (Some 7)) = Some 7"
    by (simp add: ex_overrides_def)
  have c: "ex_heap 7 = [(''8080/tcp'', ()), (''65502/tcp'', ())]"
    by (simp add: ex_heap_def)
  have d: "heap_of (RunContainer (ex_env (ex_container ex_ports))
        (ex_inspector (Some (ex_overrides (Some 7)))) ex_heap) 7 =
       [(''8080/tcp'', ()), (''65502/tcp'', ()), (''65501/tcp'', ())]"
    by (simp add: run_defs)
  have e: "heap_of (RunContainer (ex_env (ex_container ex_ports))
        (ex_inspector (Some (ex_overrides (Some 7)))) ex_heap) 7 \<noteq> ex_heap 7"
    unfolding c d by simp
  show ?thesis by (intro conjI a b c d e)
qed

text \<open>
  C8, amended. \<open>NewInspector\<close> stores the overrides as given, and \<open>RunContainer\<close> leaves
  the overrides of the inspector as they are, the reference to the port map included.
  Every map object of the store is left unchanged, except the overrides' port map when
  it is not empty: to that map \<open>RunContainer\<close> adds the two reserved ports, so that
  afterwards its keys are the user's keys and the reserved ones.
\<close>

theorem RunContainer_overrides_frame:
  "Overrides (NewInspector ii lvp overrides ls eh ds dd sl vm ex inc dbg) = overrides
   \<and> Overrides (inspector_of (RunContainer e i h)) = Overrides i
   \<and> (\<forall>b. (case Overrides i of None \<Rightarrow> True
            | Some ov \<Rightarrow> ExposedPorts ov \<noteq> Some b \<or> h b = []) \<longrightarrow>
          heap_of (RunContainer e i h) b = h b)
   \<and> (\<forall>ov a. Overrides i = Some ov \<and> ExposedPorts ov = Some a \<and> h a \<noteq> [] \<longrightarrow>
          fst ` set (heap_of (RunContainer e i h) a) =
          fst ` set (h a) \<union> {CmdPort i, EvtPort i})"
proof -
  have 1: "heap_of (RunContainer e i h) b = h b"
    if "case Overrides i of None \<Rightarrow> True
        | Some ov \<Rightarrow> ExposedPorts ov \<noteq> Some b \<or> h b = []" for b
  proof (cases "Overrides i")
    case None
    then show ?thesis by (simp add: RunContainer_heap launch_heap_None)
  next
    case (Some ov)
    with that have d: "ExposedPorts ov \<noteq> Some b \<or> h b = []" by simp
    show ?thesis
    proof (cases "ExposedPorts ov = Some b")
      case True
      with d have "h b = []" by simp
      with True have "fst (snd (exposedPorts e i ov h)) = h"
        by (rule exposedPorts_heap_empty [where a = b and h = h])
      with Some show ?thesis
        by (simp add: RunContainer_heap launch_heap)
    next
      case False
      from exposedPorts_heap_other [OF False] Some show ?thesis
        by (simp add: RunContainer_heap launch_heap)
    qed
  qed
  have 2: "fst ` set (heap_of (RunContainer e i h) a) =
          fst ` set (h a) \<union> {CmdPort i, EvtPort i}"
    if "Overrides i = Some ov" "ExposedPorts ov = Some a" "h a \<noteq> []" for ov a
  proof -
    from that(2,3)
    have "fst ` set (fst (snd (exposedPorts e i ov h)) a) =
          fst ` set (h a) \<union> {CmdPort i, EvtPort i}"
      by (rule exposedPorts_heap_keys [where a = a and h = h])
    with that(1) show ?thesis by (simp add: RunContainer_heap launch_heap)
  qed
  from 1 2 show ?thesis
    by (simp add: NewInspector_fields RunContainer_Overrides)
qed

theorem RunContainer_overrides_frame_witness:
  "Overrides (ex_inspector (Some (ex_overrides (Some 7)))) = Some (ex_overrides (Some 7))
   \<and> ExposedPorts (ex_overrides (Some 7)) = Some 7
   \<and> ex_heap 7 \<noteq> []
   \<and> Overrides (inspector_of (RunContainer (ex_env (ex_container ex_ports))
        (ex_inspector (Some (ex_overrides (Some 7)))) ex_heap)) =
       Some (ex_overrides (Some 7))
   \<and> heap_of (RunContainer (ex_env (ex_container ex_ports))
        (ex_inspector (Some (ex_overrides (Some 7)))) ex_heap) 8 = ex_heap 8
   \<and> fst ` set (heap_of (RunContainer (ex_env (ex_container ex_ports))
        (ex_inspector (Some (ex_overrides (Some 7)))) ex_heap) 7) =
       fst ` set (ex_heap 7) \<union>
       {CmdPort (ex_inspector (Some (ex_overrides (Some 7)))),
        EvtPort (ex_inspector (Some (ex_overrides (Some 7))))}"
proof -
  let ?i = "ex_inspector (Some (ex_overrides (Some 7)))"
  let ?e = "ex_env (ex_container ex_ports)"
  have a: "Overrides ?i = Some (ex_overrides (Some 7))"
    by (simp add: ex_inspector_def NewInspector_fields)
  have b: "ExposedPorts (ex_overrides (Some 7)) = Some 7"
    by (simp add: ex_overrides_def)
  have c: "ex_heap 7 \<noteq> []"
    by (simp add: ex_heap_def)
  have o: "case Overrides ?i of None \<Rightarrow> True
           | Some ov \<Rightarrow> ExposedPorts ov \<noteq> Some 8 \<or> ex_heap 8 = []"
    by (simp add: a b)
  note T = RunContainer_overrides_frame [where e = ?e and i = ?i and h = ex_heap]
  have 1: "Overrides (inspector_of (RunContainer ?e ?i ex_heap)) =
             Some (ex_overrides (Some 7))"
    using T [THEN conjunct2, THEN conjunct1] a by simp
  have 2: "heap_of (RunContainer ?e ?i ex_heap) 8 = ex_heap 8"
    by (rule T [THEN conjunct2, THEN conjunct2, THEN conjunct1, rule_format, OF o])
  have 3: "fst ` set (heap_of (RunContainer ?e ?i ex_heap) 7) =
             fst ` set (ex_heap 7) \<union> {CmdPort ?i, EvtPort ?i}"
    by (rule T [THEN conjunct2, THEN conjunct2, THEN conjunct2, rule_format,
                OF conjI [OF a conjI [OF b c]]])
  show ?thesis by (intro conjI a b c 1 2 3)
qed

end
